theory Spec2Isabelle
  imports Complex_Main "HOL-Library.Word"
begin

unbundle bit_operations_syntax

section \<open>Data model\<close>

text \<open>
  The oracle scripts (the Jupiter script and the mSOL script) keep their configuration and
  their bookkeeping in the fields of one class \<open>Main\<close>. Prices, thresholds and the
  confidence are JavaScript numbers, values of a type \<open>'n\<close> that the model does not look
  into: the arithmetic on them belongs to the runtime, not to the scripts, and is a
  parameter of every function that computes with numbers (the record \<open>runtime\<close> below).
  Timestamps and durations are \<open>int\<close> milliseconds (what \<open>Date.now()\<close> returns), and
  the status is the \<open>int\<close> the code stores (\<open>0\<close> invalid, \<open>1\<close> valid); an integer is
  truthy iff it is not \<open>0\<close>.
\<close>

datatype error =
    AssertionError     \<comment> \<open>\<open>assert(this.lastPrice)\<close> failed\<close>
  | NetworkError       \<comment> \<open>a rejected RPC or HTTP call\<close>
  | RangeError         \<comment> \<open>a value that a buffer write refuses\<close>

text \<open>
  The operations of the runtime on numbers that the scripts use: the number an integer
  literal denotes, \<open>+\<close>, \<open>-\<close>, \<open>*\<close>, \<open>/\<close>, \<open>Math.abs\<close>, \<open><\<close> (and \<open>a > b\<close>, which is
  \<open>b < a\<close>), and truthiness. \<open>n_int x\<close> is the integer that the number \<open>x\<close> is equal to, if
  it is equal to one. The last four fields are what the layout package stores in a field
  (or the error it throws) for a value that the wire format of the specification does not
  cover (see \<open>layout_encode\<close>).
\<close>

record 'n runtime =
  n_lit :: "int \<Rightarrow> 'n"
  n_add :: "'n \<Rightarrow> 'n \<Rightarrow> 'n"
  n_sub :: "'n \<Rightarrow> 'n \<Rightarrow> 'n"
  n_mul :: "'n \<Rightarrow> 'n \<Rightarrow> 'n"
  n_div :: "'n \<Rightarrow> 'n \<Rightarrow> 'n"
  n_abs :: "'n \<Rightarrow> 'n"
  n_less :: "'n \<Rightarrow> 'n \<Rightarrow> bool"
  n_truthy :: "'n \<Rightarrow> bool"
  n_int :: "'n \<Rightarrow> int option"
  other_u8 :: "int \<Rightarrow> error + 8 word"
  other_s64 :: "'n \<Rightarrow> error + 64 word"
  other_u64 :: "'n \<Rightarrow> error + 64 word"
  other_u32 :: "int \<Rightarrow> error + 32 word"

datatype 'n log_entry =
    ErrNoConfig                    \<comment> \<open>error: no configuration file specified\<close>
  | ErrInappropriateConfig         \<comment> \<open>error: 'inactiveDuration' must be longer than 'updateInterval'\<close>
  | ErrTokensNotSupported          \<comment> \<open>error: token(s) not supported by Jupiter\<close>
  | InfoStarting                   \<comment> \<open>info: starting oracle update script, params\<close>
  | DebugQuote 'n 'n 'n            \<comment> \<open>debug: bid, ask, mark\<close>
  | DebugUpdating 'n int int       \<comment> \<open>debug: updating: price, status, now\<close>
  | DebugExecuted nat              \<comment> \<open>debug: executed update tx: txid\<close>
  | WarnDisabling int              \<comment> \<open>warn: disabling oracle: no update for ... ms\<close>
  | ErrMainLoop error              \<comment> \<open>error: error in main persistent loop\<close>

record Transaction =
  data :: "8 word list"
  recentBlockhash :: "nat option"
  txSigned :: bool

record 'n Config =
  cfg_fetchInterval :: int
  cfg_updateThreshold :: 'n
  cfg_updateInterval :: int
  cfg_confidence :: 'n
  cfg_inactiveDuration :: int
  cfg_minThreshold :: 'n
  cfg_maxThreshold :: 'n
  cfg_allowNegativeSpread :: bool

text \<open>
  The fields of the class. \<open>logger\<close> is the list of entries logged so far.
  \<open>inflight\<close> is not a field of the class: it lists the transactions handed to the
  delivery protocol without waiting for it (the pending promises of the process).
\<close>

record 'n Main =
  fetchInterval :: int
  updateThreshold :: 'n
  updateInterval :: int
  confidence :: 'n
  inactiveDuration :: int
  minThreshold :: 'n
  maxThreshold :: 'n
  allowNegativeSpread :: bool
  lastUpdate :: int
  lastPrice :: 'n
  lastStatus :: int
  logger :: "'n log_entry list"
  inflight :: "Transaction list"

section \<open>The update decision\<close>

text \<open>
  \<open>needUpdate\<close>, the same text in both scripts: true once more than \<open>updateInterval\<close>
  has passed since the last update; otherwise the baseline is asserted to be truthy and
  \<open>Math.abs((price - this.lastPrice) / this.lastPrice * 100)\<close> is compared with
  \<open>updateThreshold\<close>.
\<close>

definition needUpdate :: "'n runtime \<Rightarrow> 'n Main \<Rightarrow> 'n \<Rightarrow> int \<Rightarrow> error + bool" where
  "needUpdate R m price now =
     (if now > lastUpdate m + updateInterval m then Inr True
      else if \<not> n_truthy R (lastPrice m) then Inl AssertionError
      else Inr (n_less R (updateThreshold m)
                  (n_abs R (n_mul R (n_div R (n_sub R price (lastPrice m)) (lastPrice m))
                                    (n_lit R 100)))))"

section \<open>The oracle update payload\<close>

text \<open>
  Modelled from the spec: the layout objects of the buffer-layout package (\<open>struct\<close>,
  \<open>u8\<close>, \<open>ns64\<close>, \<open>nu64\<close>, \<open>u32\<close>) are not among the sources. \<open>le_bytes n w\<close> are the
  \<open>n\<close> low bytes of the word \<open>w\<close>, least significant first (little-endian).
\<close>

fun le_bytes :: "nat \<Rightarrow> 'a::len word \<Rightarrow> 8 word list" where
  "le_bytes 0 w = []"
| "le_bytes (Suc n) w = ucast w # le_bytes n (drop_bit 8 w)"

text \<open>
  Modelled from the spec: reading a little-endian field back, the inverse direction of
  \<open>le_bytes\<close>; the consumer of the payload is the on-chain program, not among the sources.
\<close>

fun le_word :: "8 word list \<Rightarrow> 'a::len word" where
  "le_word [] = 0"
| "le_word (b # bs) = ucast b OR push_bit 8 (le_word bs)"

text \<open>
  Modelled from the spec: the fields of the wire format, \<open>u8\<close>, signed 64-bit, unsigned
  64-bit and \<open>u32\<close>. The format covers a value that is an integer within the range of
  its field: the field then holds that integer. For any other value (a number with a
  fraction, an infinity, NaN, an integer out of range) the specification names no content,
  and the field holds whatever the package stores, or the package throws: the parameters
  \<open>other_u8\<close>, \<open>other_s64\<close>, \<open>other_u64\<close> and \<open>other_u32\<close>.
\<close>

definition field_u8 :: "'n runtime \<Rightarrow> int \<Rightarrow> error + 8 word" where
  "field_u8 R v = (if 0 \<le> v \<and> v < 2 ^ 8 then Inr (word_of_int v) else other_u8 R v)"

definition field_s64 :: "'n runtime \<Rightarrow> 'n \<Rightarrow> error + 64 word" where
  "field_s64 R x =
     (case n_int R x of
        Some p \<Rightarrow> (if - (2 ^ 63) \<le> p \<and> p < 2 ^ 63 then Inr (word_of_int p) else other_s64 R x)
      | None \<Rightarrow> other_s64 R x)"

definition field_u64 :: "'n runtime \<Rightarrow> 'n \<Rightarrow> error + 64 word" where
  "field_u64 R x =
     (case n_int R x of
        Some c \<Rightarrow> (if 0 \<le> c \<and> c < 2 ^ 64 then Inr (word_of_int c) else other_u64 R x)
      | None \<Rightarrow> other_u64 R x)"

definition field_u32 :: "'n runtime \<Rightarrow> int \<Rightarrow> error + 32 word" where
  "field_u32 R v = (if 0 \<le> v \<and> v < 2 ^ 32 then Inr (word_of_int v) else other_u32 R v)"

text \<open>
  Modelled from the spec: the fixed layout
  \<open>[instruction: u8][price: signed 64-bit][confidence: unsigned 64-bit][status: u32]\<close>,
  21 bytes, each field little-endian, filled in this order.
\<close>

definition layout_encode ::
  "'n runtime \<Rightarrow> int \<Rightarrow> 'n \<Rightarrow> 'n \<Rightarrow> int \<Rightarrow> error + 8 word list" where
  "layout_encode R instruction price conf status =
     (case field_u8 R instruction of
        Inl e \<Rightarrow> Inl e
      | Inr i \<Rightarrow>
          (case field_s64 R price of
             Inl e \<Rightarrow> Inl e
           | Inr p \<Rightarrow>
               (case field_u64 R conf of
                  Inl e \<Rightarrow> Inl e
                | Inr c \<Rightarrow>
                    (case field_u32 R status of
                       Inl e \<Rightarrow> Inl e
                     | Inr s \<Rightarrow> Inr (le_bytes 1 i @ le_bytes 8 p @ le_bytes 8 c @ le_bytes 4 s)))))"

text \<open>
  Modelled from the spec: decoding the same layout, as the consumer of the payload does:
  the instruction, the signed price, the unsigned confidence and the status.
\<close>

definition layout_decode :: "8 word list \<Rightarrow> (int \<times> int \<times> int \<times> int) option" where
  "layout_decode bs =
     (if length bs = 21
      then Some (uint (le_word (take 1 bs) :: 8 word),
                 sint (le_word (take 8 (drop 1 bs)) :: 64 word),
                 uint (le_word (take 8 (drop 9 bs)) :: 64 word),
                 uint (le_word (take 4 (drop 17 bs)) :: 32 word))
      else None)"

text \<open>
  \<open>composeUpdatePriceTransaction\<close>: one instruction whose data is the layout filled with
  instruction \<open>0\<close>, \<open>price * 100_000_000\<close>, \<open>confidence * 10_000\<close> and the status, the
  products computed by the runtime. The connection, the program id and the account key do
  not enter the data and are left out.
\<close>

definition composeUpdatePriceTransaction ::
  "'n runtime \<Rightarrow> 'n \<Rightarrow> 'n \<Rightarrow> int \<Rightarrow> error + Transaction" where
  "composeUpdatePriceTransaction R price conf status =
     (case layout_encode R 0 (n_mul R price (n_lit R 100000000))
                             (n_mul R conf (n_lit R 10000)) status of
        Inl e \<Rightarrow> Inl e
      | Inr d \<Rightarrow> Inr \<lparr>data = d, recentBlockhash = None, txSigned = False\<rparr>)"

section \<open>The delivery protocol\<close>

text \<open>
  The broadcast channel is a script of replies: the \<open>k\<close>-th call of
  \<open>sendRawTransaction\<close> and the \<open>k\<close>-th call of \<open>getTransaction\<close> settle after a
  latency in milliseconds, with a result or a rejection; a status query may also never
  settle. \<open>net\<close> is the clock read by \<open>getUnixTs\<close> and the number of calls issued so far.
\<close>

datatype send_reply =
    SendOk nat nat         \<comment> \<open>latency, transaction id\<close>
  | SendFail nat           \<comment> \<open>latency, then the promise rejects\<close>

datatype query_reply =
    QueryNull nat          \<comment> \<open>latency, then \<open>null\<close>: not confirmed yet\<close>
  | QueryConfirmed nat nat \<comment> \<open>latency, then the transaction response\<close>
  | QueryFail nat          \<comment> \<open>latency, then the promise rejects\<close>
  | QueryHang              \<comment> \<open>the promise never settles\<close>

record Connection =
  sendRawTransaction :: "nat \<Rightarrow> send_reply"
  getTransaction :: "nat \<Rightarrow> query_reply"

record net =
  clock :: int
  sends :: nat
  queries :: nat

record WaiterArgs =
  timeout :: int
  pollInterval :: int
  sendInterval :: int
  sendRetries :: int

record DeliveryResult =
  txid :: nat
  transactionResponse :: "nat option"

definition TX_DURATION :: int where
  "TX_DURATION = 120000"

text \<open>The default values of the parameters, with which \<open>updatePrice\<close> calls the protocol.\<close>

definition default_args :: WaiterArgs where
  "default_args = \<lparr>timeout = TX_DURATION, pollInterval = 1000, sendInterval = 5000, sendRetries = 40\<rparr>"

text \<open>\<open>sleep(ms)\<close>: the promise resolves after \<open>ms\<close> milliseconds.\<close>

definition sleep :: "int \<Rightarrow> net \<Rightarrow> net" where
  "sleep ms w = w\<lparr>clock := clock w + ms\<rparr>"

text \<open>
  \<open>Promise.any([getTransaction(...), sleep(1500)])\<close>: the first promise to fulfil gives the
  value, a rejection is ignored while the other promise can still fulfil. The result is the
  time the race takes and the response seen: the reply of the query if it fulfils in less
  than 1500 ms, otherwise the \<open>undefined\<close> of the wait. \<open>null\<close> and \<open>undefined\<close> are both
  \<open>None\<close>: the code only tests the response for truthiness.
\<close>

fun race_any :: "query_reply \<Rightarrow> int \<times> nat option" where
  "race_any (QueryConfirmed lat r) = (if int lat < 1500 then (int lat, Some r) else (1500, None))"
| "race_any (QueryNull lat) = (if int lat < 1500 then (int lat, None) else (1500, None))"
| "race_any (QueryFail lat) = (1500, None)"
| "race_any QueryHang = (1500, None)"

text \<open>
  The rebroadcast step at the head of the loop body: when fewer than \<open>sendRetries\<close>
  rebroadcasts were made and more than \<open>sendInterval\<close> has passed since the last one, the
  timer and the counter are updated and the transaction is sent again, awaiting the call.
  The result is the failure of that call, or the new \<open>lastSendTimestamp\<close> and \<open>retries\<close>.
\<close>

definition rebroadcast ::
  "Connection \<Rightarrow> WaiterArgs \<Rightarrow> int \<Rightarrow> int \<Rightarrow> net \<Rightarrow> (error + int \<times> int) \<times> net" where
  "rebroadcast conn a lastSendTimestamp retries w =
     (let timestamp = clock w in
      if retries < sendRetries a \<and> timestamp - lastSendTimestamp > sendInterval a
      then (case sendRawTransaction conn (sends w) of
              SendOk lat _ \<Rightarrow>
                (Inr (timestamp, retries + 1), w\<lparr>clock := clock w + int lat, sends := Suc (sends w)\<rparr>)
            | SendFail lat \<Rightarrow>
                (Inl NetworkError, w\<lparr>clock := clock w + int lat, sends := Suc (sends w)\<rparr>))
      else (Inr (lastSendTimestamp, retries), w))"

text \<open>
  The \<open>while\<close> loop of \<open>transactionSenderAndConfirmationWaiter\<close>. The first argument
  bounds the number of iterations: \<open>None\<close> means that the loop has not returned within
  that many iterations.
\<close>

fun waiter_loop ::
  "nat \<Rightarrow> Connection \<Rightarrow> WaiterArgs \<Rightarrow> nat \<Rightarrow> int \<Rightarrow> int \<Rightarrow> int \<Rightarrow> net
     \<Rightarrow> ((error + DeliveryResult) \<times> net) option" where
  "waiter_loop 0 conn a tid start lastSendTimestamp retries w = None"
| "waiter_loop (Suc fuel) conn a tid start lastSendTimestamp retries w =
     (if clock w - start < timeout a then
        (case rebroadcast conn a lastSendTimestamp retries w of
           (Inl e, w1) \<Rightarrow> Some (Inl e, w1)
         | (Inr (lastSendTimestamp1, retries1), w1) \<Rightarrow>
             (case race_any (getTransaction conn (queries w1)) of
                (elapsed, response) \<Rightarrow>
                  (let w2 = w1\<lparr>clock := clock w1 + elapsed, queries := Suc (queries w1)\<rparr> in
                   case response of
                     Some r \<Rightarrow> Some (Inr \<lparr>txid = tid, transactionResponse = Some r\<rparr>, w2)
                   | None \<Rightarrow>
                       waiter_loop fuel conn a tid start lastSendTimestamp1 retries1
                         (sleep (pollInterval a) w2))))
      else Some (Inr \<lparr>txid = tid, transactionResponse = None\<rparr>, w))"

text \<open>
  \<open>transactionSenderAndConfirmationWaiter\<close>: the first broadcast gives the transaction id;
  \<open>start\<close> and \<open>lastSendTimestamp\<close> are the clock after it. A failure of the first
  broadcast rejects the promise.
\<close>

definition transactionSenderAndConfirmationWaiter ::
  "nat \<Rightarrow> Connection \<Rightarrow> WaiterArgs \<Rightarrow> net \<Rightarrow> ((error + DeliveryResult) \<times> net) option" where
  "transactionSenderAndConfirmationWaiter fuel conn a w =
     (case sendRawTransaction conn (sends w) of
        SendFail lat \<Rightarrow> Some (Inl NetworkError, w\<lparr>clock := clock w + int lat, sends := Suc (sends w)\<rparr>)
      | SendOk lat tid \<Rightarrow>
          (let w1 = w\<lparr>clock := clock w + int lat, sends := Suc (sends w)\<rparr>;
               start = clock w1;
               lastSendTimestamp = clock w1
           in waiter_loop fuel conn a tid start lastSendTimestamp 0 w1))"

section \<open>The publisher\<close>

text \<open>
  The two scripts differ in the price they write on chain: the Jupiter script writes the
  price it was given, the mSOL script its inverse (\<open>price ? 1.0 / price : 0\<close>).
\<close>

datatype venue = Jupiter | Marinade

definition oraclePrice :: "'n runtime \<Rightarrow> venue \<Rightarrow> 'n \<Rightarrow> 'n" where
  "oraclePrice R v price =
     (case v of
        Jupiter \<Rightarrow> price
      | Marinade \<Rightarrow> (if n_truthy R price then n_div R (n_lit R 1) price else n_lit R 0))"

text \<open>
  \<open>updatePrice\<close>: log, compose the transaction, fetch a recent blockhash (the argument
  \<open>bh\<close> is the outcome of \<open>getLatestBlockhash\<close>), sign, start the delivery protocol
  without awaiting it, and only then set \<open>lastPrice\<close>, \<open>lastStatus\<close> and
  \<open>lastUpdate\<close>. A fault leaves the method at that point.
\<close>

definition updatePrice ::
  "'n runtime \<Rightarrow> venue \<Rightarrow> 'n \<Rightarrow> int \<Rightarrow> int \<Rightarrow> error + nat \<Rightarrow> 'n Main
     \<Rightarrow> (error + unit) \<times> 'n Main" where
  "updatePrice R v price status now bh m =
     (let m1 = m\<lparr>logger := logger m @ [DebugUpdating price status now]\<rparr> in
      case composeUpdatePriceTransaction R (oraclePrice R v price) (confidence m1) status of
        Inl e \<Rightarrow> (Inl e, m1)
      | Inr tx \<Rightarrow>
          (case bh of
             Inl e \<Rightarrow> (Inl e, m1)
           | Inr blockhash \<Rightarrow>
               (let tx1 = tx\<lparr>recentBlockhash := Some blockhash, txSigned := True\<rparr>;
                    m2 = m1\<lparr>inflight := inflight m1 @ [tx1]\<rparr>
                in (Inr (), m2\<lparr>lastPrice := price, lastStatus := status, lastUpdate := now\<rparr>))))"

text \<open>
  What the delivery task does to the publisher when it settles: the \<open>then\<close> callback
  logs the transaction id (for a confirmation and for a timeout alike), and a rejection
  reaches \<open>catch()\<close>, which has no handler.
\<close>

definition delivery_settled :: "error + DeliveryResult \<Rightarrow> 'n Main \<Rightarrow> 'n Main" where
  "delivery_settled outcome m =
     (case outcome of
        Inr res \<Rightarrow> m\<lparr>logger := logger m @ [DebugExecuted (txid res)]\<rparr>
      | Inl e \<Rightarrow> m)"

definition getMarkPrice :: "'n runtime \<Rightarrow> 'n \<Rightarrow> 'n \<Rightarrow> 'n" where
  "getMarkPrice R bid ask = n_div R (n_add R bid ask) (n_lit R 2)"

text \<open>
  The status of a regular publish in the Jupiter script, from the local constants
  \<open>negativeSpread\<close>, \<open>outOfThreshold\<close> and \<open>status\<close> of the loop body.
\<close>

definition negativeSpread :: "'n runtime \<Rightarrow> 'n \<Rightarrow> 'n \<Rightarrow> bool" where
  "negativeSpread R bid ask = n_less R ask bid"

definition outOfThreshold :: "'n runtime \<Rightarrow> 'n Main \<Rightarrow> 'n \<Rightarrow> bool" where
  "outOfThreshold R m price = (n_less R price (minThreshold m) \<or> n_less R (maxThreshold m) price)"

definition publishStatus :: "'n runtime \<Rightarrow> 'n Main \<Rightarrow> 'n \<Rightarrow> 'n \<Rightarrow> 'n \<Rightarrow> int" where
  "publishStatus R m bid ask price =
     (if (\<not> allowNegativeSpread m \<and> negativeSpread R bid ask) \<or> outOfThreshold R m price
      then 0 else 1)"

text \<open>
  The inactivity rule at the end of the loop body, the same text in both scripts: with a
  truthy \<open>inactiveDuration\<close>, more than that time since \<open>lastUpdate\<close> and a truthy
  \<open>lastStatus\<close>, a warning is logged and the last price is published with status \<open>0\<close>.
\<close>

definition inactive :: "'n Main \<Rightarrow> int \<Rightarrow> bool" where
  "inactive m now =
     (inactiveDuration m \<noteq> 0 \<and> now > lastUpdate m + inactiveDuration m \<and> lastStatus m \<noteq> 0)"

definition disableIfInactive ::
  "'n runtime \<Rightarrow> venue \<Rightarrow> int \<Rightarrow> error + nat \<Rightarrow> 'n Main \<Rightarrow> (error + unit) \<times> 'n Main" where
  "disableIfInactive R v now bh m =
     (if inactive m now
      then updatePrice R v (lastPrice m) 0 now bh
             (m\<lparr>logger := logger m @ [WarnDisabling (inactiveDuration m)]\<rparr>)
      else (Inr (), m))"

text \<open>
  One pass of the inner loop of the Jupiter script. The environment of the pass: the time
  read at its start, the outcome of the two route searches (a fault, no route, or a route
  with its amounts) and the outcome of the blockhash request of each publish.
\<close>

record 'n RouteInfo =
  inAmount :: 'n
  outAmount :: 'n

record 'n JupiterTick =
  tick_now :: int
  routeInfo0 :: "error + 'n RouteInfo option"
  routeInfo1 :: "error + 'n RouteInfo option"
  blockhash_publish :: "error + nat"
  blockhash_disable :: "error + nat"

definition publishIfNeeded ::
  "'n runtime \<Rightarrow> 'n RouteInfo \<Rightarrow> 'n RouteInfo \<Rightarrow> int \<Rightarrow> error + nat \<Rightarrow> 'n Main
     \<Rightarrow> (error + unit) \<times> 'n Main" where
  "publishIfNeeded R r0 r1 now bh m =
     (let bid = n_div R (outAmount r0) (inAmount r0);
          ask = n_div R (inAmount r1) (outAmount r1);
          price = getMarkPrice R bid ask;
          m1 = m\<lparr>logger := logger m @ [DebugQuote bid ask price]\<rparr>
      in case needUpdate R m1 price now of
           Inl e \<Rightarrow> (Inl e, m1)
         | Inr True \<Rightarrow> updatePrice R Jupiter price (publishStatus R m1 bid ask price) now bh m1
         | Inr False \<Rightarrow> (Inr (), m1))"

text \<open>
  The first half of a pass: the two route searches and, when both found a route, the
  regular publish. An error thrown here ends the pass.
\<close>

definition observe :: "'n runtime \<Rightarrow> 'n JupiterTick \<Rightarrow> 'n Main \<Rightarrow> (error + unit) \<times> 'n Main" where
  "observe R t m =
     (case routeInfo0 t of
        Inl e \<Rightarrow> (Inl e, m)
      | Inr r0 \<Rightarrow>
          (case routeInfo1 t of
             Inl e \<Rightarrow> (Inl e, m)
           | Inr r1 \<Rightarrow>
               (case (r0, r1) of
                  (Some a, Some b) \<Rightarrow> publishIfNeeded R a b (tick_now t) (blockhash_publish t) m
                | _ \<Rightarrow> (Inr (), m))))"

definition tick :: "'n runtime \<Rightarrow> 'n JupiterTick \<Rightarrow> 'n Main \<Rightarrow> (error + unit) \<times> 'n Main" where
  "tick R t m =
     (case observe R t m of
        (Inl e, m1) \<Rightarrow> (Inl e, m1)
      | (Inr _, m1) \<Rightarrow> disableIfInactive R Jupiter (tick_now t) (blockhash_disable t) m1)"

text \<open>
  One pass of the inner loop of the mSOL script: the price comes from the Marinade state
  (a fault, or a number that is skipped when falsy), and the status of a regular publish
  is always \<open>1\<close>.
\<close>

record 'n MarinadeTick =
  mtick_now :: int
  mSolPrice :: "error + 'n"
  mblockhash_publish :: "error + nat"
  mblockhash_disable :: "error + nat"

definition observe_mSOL ::
  "'n runtime \<Rightarrow> 'n MarinadeTick \<Rightarrow> 'n Main \<Rightarrow> (error + unit) \<times> 'n Main" where
  "observe_mSOL R t m =
     (case mSolPrice t of
        Inl e \<Rightarrow> (Inl e, m)
      | Inr p \<Rightarrow>
          (if n_truthy R p
           then (case needUpdate R m p (mtick_now t) of
                   Inl e \<Rightarrow> (Inl e, m)
                 | Inr True \<Rightarrow> updatePrice R Marinade p 1 (mtick_now t) (mblockhash_publish t) m
                 | Inr False \<Rightarrow> (Inr (), m))
           else (Inr (), m)))"

definition tick_mSOL ::
  "'n runtime \<Rightarrow> 'n MarinadeTick \<Rightarrow> 'n Main \<Rightarrow> (error + unit) \<times> 'n Main" where
  "tick_mSOL R t m =
     (case observe_mSOL R t m of
        (Inl e, m1) \<Rightarrow> (Inl e, m1)
      | (Inr _, m1) \<Rightarrow> disableIfInactive R Marinade (mtick_now t) (mblockhash_disable t) m1)"

text \<open>
  The loops of \<open>main\<close>, run over the passes that happen before the interrupt. An error
  thrown by a pass is caught by the outer loop and logged; the next pass starts on a new
  connection with the fields as the failed pass left them.
\<close>

fun main_loop :: "'n runtime \<Rightarrow> 'n JupiterTick list \<Rightarrow> 'n Main \<Rightarrow> 'n Main" where
  "main_loop R [] m = m"
| "main_loop R (t # ts) m =
     (case tick R t m of
        (Inl e, m1) \<Rightarrow> main_loop R ts (m1\<lparr>logger := logger m1 @ [ErrMainLoop e]\<rparr>)
      | (Inr _, m1) \<Rightarrow> main_loop R ts m1)"

fun main_loop_mSOL :: "'n runtime \<Rightarrow> 'n MarinadeTick list \<Rightarrow> 'n Main \<Rightarrow> 'n Main" where
  "main_loop_mSOL R [] m = m"
| "main_loop_mSOL R (t # ts) m =
     (case tick_mSOL R t m of
        (Inl e, m1) \<Rightarrow> main_loop_mSOL R ts (m1\<lparr>logger := logger m1 @ [ErrMainLoop e]\<rparr>)
      | (Inr _, m1) \<Rightarrow> main_loop_mSOL R ts m1)"

text \<open>
  The start-up check of \<open>main\<close>, the same text in both scripts:
  \<open>this.inactiveDuration && this.inactiveDuration < this.updateInterval\<close>.
\<close>

definition inappropriateConfig :: "'n Main \<Rightarrow> bool" where
  "inappropriateConfig m = (inactiveDuration m \<noteq> 0 \<and> inactiveDuration m < updateInterval m)"

text \<open>
  \<open>main\<close> of the Jupiter script. \<open>tokens\<close> is the outcome of fetching the token list
  (a fault, or whether the base and the quote token were found in it).
\<close>

definition main ::
  "'n runtime \<Rightarrow> 'n Config option \<Rightarrow> error + bool \<times> bool \<Rightarrow> 'n JupiterTick list \<Rightarrow> 'n Main
     \<Rightarrow> (error + unit) \<times> 'n Main" where
  "main R config tokens ticks m =
     (case config of
        None \<Rightarrow> (Inr (), m\<lparr>logger := logger m @ [ErrNoConfig]\<rparr>)
      | Some c \<Rightarrow>
          (let m1 = m\<lparr>fetchInterval := cfg_fetchInterval c,
                       updateThreshold := cfg_updateThreshold c,
                       updateInterval := cfg_updateInterval c,
                       confidence := cfg_confidence c,
                       inactiveDuration := cfg_inactiveDuration c,
                       minThreshold := cfg_minThreshold c,
                       maxThreshold := cfg_maxThreshold c,
                       allowNegativeSpread := cfg_allowNegativeSpread c\<rparr>
           in if inappropriateConfig m1
              then (Inr (), m1\<lparr>logger := logger m1 @ [ErrInappropriateConfig]\<rparr>)
              else (case tokens of
                      Inl e \<Rightarrow> (Inl e, m1)
                    | Inr (baseToken, quoteToken) \<Rightarrow>
                        if \<not> baseToken \<or> \<not> quoteToken
                        then (Inr (), m1\<lparr>logger := logger m1 @ [ErrTokensNotSupported]\<rparr>)
                        else (Inr (), main_loop R ticks (m1\<lparr>logger := logger m1 @ [InfoStarting]\<rparr>)))))"

text \<open>\<open>main\<close> of the mSOL script: no token list, and the three bounds are not read.\<close>

definition main_mSOL ::
  "'n runtime \<Rightarrow> 'n Config option \<Rightarrow> 'n MarinadeTick list \<Rightarrow> 'n Main \<Rightarrow> (error + unit) \<times> 'n Main" where
  "main_mSOL R config ticks m =
     (case config of
        None \<Rightarrow> (Inr (), m\<lparr>logger := logger m @ [ErrNoConfig]\<rparr>)
      | Some c \<Rightarrow>
          (let m1 = m\<lparr>fetchInterval := cfg_fetchInterval c,
                       updateThreshold := cfg_updateThreshold c,
                       updateInterval := cfg_updateInterval c,
                       confidence := cfg_confidence c,
                       inactiveDuration := cfg_inactiveDuration c\<rparr>
           in if inappropriateConfig m1
              then (Inr (), m1\<lparr>logger := logger m1 @ [ErrInappropriateConfig]\<rparr>)
              else (Inr (), main_loop_mSOL R ticks (m1\<lparr>logger := logger m1 @ [InfoStarting]\<rparr>))))"

section \<open>Double-precision arithmetic\<close>

text \<open>
  The runtime the scripts run on computes with IEEE 754 binary64 numbers, rounding to
  nearest, ties to even. The concrete runs below are evaluated in this arithmetic. A
  number is a finite value (a real that is representable; \<open>Fin 0\<close> is \<open>+0\<close>), \<open>-0\<close>, an
  infinity or NaN.
\<close>

datatype double = Fin real | NegZero | PInf | NInf | NaN

text \<open>
  Rounding a real to the nearest double: the exponent of the value (not below that of the
  subnormals), the unit in the last of 53 places, the multiple of it nearest to the value
  (ties to even), and overflow to an infinity, underflow to a signed zero.
\<close>

definition pow2 :: "int \<Rightarrow> real" where
  "pow2 e = (if 0 \<le> e then 2 ^ nat e else 1 / 2 ^ nat (- e))"

fun log2_up :: "nat \<Rightarrow> real \<Rightarrow> int" where
  "log2_up 0 x = 0"
| "log2_up (Suc n) x = (if x < 2 then 0 else 1 + log2_up n (x / 2))"

fun log2_down :: "nat \<Rightarrow> real \<Rightarrow> int" where
  "log2_down 0 x = 0"
| "log2_down (Suc n) x = (if 1 \<le> x then 0 else log2_down n (x * 2) - 1)"

definition ilog2 :: "real \<Rightarrow> int" where
  "ilog2 x = (if 1 \<le> x then log2_up 1100 x else log2_down 1100 x)"

definition round_half_even :: "real \<Rightarrow> int" where
  "round_half_even q =
     (if q - of_int \<lfloor>q\<rfloor> < 1 / 2 then \<lfloor>q\<rfloor>
      else if 1 / 2 < q - of_int \<lfloor>q\<rfloor> then \<lfloor>q\<rfloor> + 1
      else if even \<lfloor>q\<rfloor> then \<lfloor>q\<rfloor> else \<lfloor>q\<rfloor> + 1)"

definition fl_pack :: "real \<Rightarrow> real \<Rightarrow> double" where
  "fl_pack x r =
     (if 2 ^ 1024 \<le> \<bar>r\<bar> then (if 0 < x then PInf else NInf)
      else if r = 0 then (if 0 < x then Fin 0 else NegZero)
      else Fin r)"

definition fl_ulp :: "real \<Rightarrow> real \<Rightarrow> double" where
  "fl_ulp x u = fl_pack x (of_int (round_half_even (x / u)) * u)"

definition fl :: "real \<Rightarrow> double" where
  "fl x = (if x = 0 then Fin 0 else fl_ulp x (pow2 (max (ilog2 \<bar>x\<bar>) (- 1022) - 52)))"

text \<open>The operations on doubles, with the IEEE rules for zeros, infinities and NaN.\<close>

fun negative :: "double \<Rightarrow> bool" where
  "negative (Fin r) = (r < 0)"
| "negative NegZero = True"
| "negative PInf = False"
| "negative NInf = True"
| "negative NaN = False"

fun finite_value :: "double \<Rightarrow> real option" where
  "finite_value (Fin r) = Some r"
| "finite_value NegZero = Some 0"
| "finite_value PInf = None"
| "finite_value NInf = None"
| "finite_value NaN = None"

definition signed_zero :: "bool \<Rightarrow> double" where
  "signed_zero neg = (if neg then NegZero else Fin 0)"

definition signed_inf :: "bool \<Rightarrow> double" where
  "signed_inf neg = (if neg then NInf else PInf)"

fun d_neg :: "double \<Rightarrow> double" where
  "d_neg (Fin r) = (if r = 0 then NegZero else Fin (- r))"
| "d_neg NegZero = Fin 0"
| "d_neg PInf = NInf"
| "d_neg NInf = PInf"
| "d_neg NaN = NaN"

definition d_add :: "double \<Rightarrow> double \<Rightarrow> double" where
  "d_add x y =
     (if x = NaN \<or> y = NaN then NaN
      else case (finite_value x, finite_value y) of
             (Some a, Some b) \<Rightarrow>
               (if a + b = 0 then signed_zero (x = NegZero \<and> y = NegZero) else fl (a + b))
           | (Some a, None) \<Rightarrow> y
           | (None, Some b) \<Rightarrow> x
           | (None, None) \<Rightarrow> (if x = y then x else NaN))"

definition d_sub :: "double \<Rightarrow> double \<Rightarrow> double" where
  "d_sub x y = d_add x (d_neg y)"

definition d_mul :: "double \<Rightarrow> double \<Rightarrow> double" where
  "d_mul x y =
     (if x = NaN \<or> y = NaN then NaN
      else case (finite_value x, finite_value y) of
             (Some a, Some b) \<Rightarrow>
               (if a * b = 0 then signed_zero (negative x \<noteq> negative y) else fl (a * b))
           | (Some a, None) \<Rightarrow> (if a = 0 then NaN else signed_inf (negative x \<noteq> negative y))
           | (None, Some b) \<Rightarrow> (if b = 0 then NaN else signed_inf (negative x \<noteq> negative y))
           | (None, None) \<Rightarrow> signed_inf (negative x \<noteq> negative y))"

definition d_div :: "double \<Rightarrow> double \<Rightarrow> double" where
  "d_div x y =
     (if x = NaN \<or> y = NaN then NaN
      else case (finite_value x, finite_value y) of
             (Some a, Some b) \<Rightarrow>
               (if b = 0 then (if a = 0 then NaN else signed_inf (negative x \<noteq> negative y))
                else if a = 0 then signed_zero (negative x \<noteq> negative y)
                else fl (a / b))
           | (Some a, None) \<Rightarrow> signed_zero (negative x \<noteq> negative y)
           | (None, Some b) \<Rightarrow> signed_inf (negative x \<noteq> negative y)
           | (None, None) \<Rightarrow> NaN)"

fun d_abs :: "double \<Rightarrow> double" where
  "d_abs (Fin r) = Fin \<bar>r\<bar>"
| "d_abs NegZero = Fin 0"
| "d_abs PInf = PInf"
| "d_abs NInf = PInf"
| "d_abs NaN = NaN"

definition d_less :: "double \<Rightarrow> double \<Rightarrow> bool" where
  "d_less x y =
     (if x = NaN \<or> y = NaN then False
      else case (finite_value x, finite_value y) of
             (Some a, Some b) \<Rightarrow> a < b
           | (Some a, None) \<Rightarrow> y = PInf
           | (None, Some b) \<Rightarrow> x = NInf
           | (None, None) \<Rightarrow> x = NInf \<and> y = PInf)"

text \<open>A number is falsy iff it is \<open>+0\<close>, \<open>-0\<close> or NaN.\<close>

definition d_truthy :: "double \<Rightarrow> bool" where
  "d_truthy x = (x \<noteq> NaN \<and> finite_value x \<noteq> Some 0)"

definition d_int :: "double \<Rightarrow> int option" where
  "d_int x =
     (case finite_value x of
        Some a \<Rightarrow> (if of_int \<lfloor>a\<rfloor> = a then Some \<lfloor>a\<rfloor> else None)
      | None \<Rightarrow> None)"

fun d_floor :: "double \<Rightarrow> double" where
  "d_floor (Fin r) = Fin (of_int \<lfloor>r\<rfloor>)"
| "d_floor NegZero = NegZero"
| "d_floor PInf = PInf"
| "d_floor NInf = NInf"
| "d_floor NaN = NaN"

section \<open>The layout package on the runtime\<close>

text \<open>
  The layout package (buffer-layout) and the buffer writes of the runtime are not among
  the sources; these definitions follow their behaviour, for the field values that the
  wire format does not cover. A 64-bit field (\<open>ns64\<close>, \<open>nu64\<close>) splits the number
  in the arithmetic of the runtime: the high word is \<open>Math.floor(src / 2^32)\<close>, the low
  word \<open>src - hi32 * 2^32\<close>; the low word goes to an unsigned 32-bit buffer write and
  then the high word to a signed (\<open>ns64\<close>) or unsigned (\<open>nu64\<close>) one. A 32-bit buffer
  write throws a \<open>RangeError\<close> when the value is greater than the maximum or less than the
  minimum of its range and otherwise stores the value with its fraction cut off (NaN
  passes both comparisons and is stored as \<open>0\<close>). An integer field (\<open>u8\<close>, \<open>u32\<close>)
  refuses a value outside its range.
\<close>

definition node_truncate :: "double \<Rightarrow> int" where
  "node_truncate v =
     (case finite_value v of
        Some a \<Rightarrow> (if 0 \<le> a then \<lfloor>a\<rfloor> else \<lceil>a\<rceil>)
      | None \<Rightarrow> 0)"

definition node_write32 :: "real \<Rightarrow> real \<Rightarrow> double \<Rightarrow> error + 32 word" where
  "node_write32 lo hi v =
     (if d_less (Fin hi) v \<or> d_less v (Fin lo) then Inl RangeError
      else Inr (word_of_int (node_truncate v)))"

definition node_near64 :: "bool \<Rightarrow> double \<Rightarrow> error + 64 word" where
  "node_near64 is_signed src =
     (case node_write32 0 4294967295
             (d_sub src (d_mul (d_floor (d_div src (Fin 4294967296))) (Fin 4294967296))) of
        Inl e \<Rightarrow> Inl e
      | Inr lo32 \<Rightarrow>
          (case (if is_signed
                 then node_write32 (- 2147483648) 2147483647 (d_floor (d_div src (Fin 4294967296)))
                 else node_write32 0 4294967295 (d_floor (d_div src (Fin 4294967296)))) of
             Inl e \<Rightarrow> Inl e
           | Inr hi32 \<Rightarrow> Inr (ucast lo32 OR push_bit 32 (ucast hi32))))"

definition node_uint :: "int \<Rightarrow> error + 'a::len word" where
  "node_uint v = (if 0 \<le> v \<and> v < 2 ^ LENGTH('a) then Inr (word_of_int v) else Inl RangeError)"

text \<open>The runtime of the scripts: binary64 arithmetic and the layout package on it.\<close>

definition binary64 :: "double runtime" where
  "binary64 = \<lparr>n_lit = (\<lambda>k. fl (of_int k)), n_add = d_add, n_sub = d_sub, n_mul = d_mul,
       n_div = d_div, n_abs = d_abs, n_less = d_less, n_truthy = d_truthy, n_int = d_int,
       other_u8 = node_uint, other_s64 = node_near64 True, other_u64 = node_near64 False,
       other_u32 = node_uint\<rparr>"

section \<open>Concrete states and channels\<close>

text \<open>
  The fields of a new \<open>Main\<close> object: \<open>lastUpdate\<close>, \<open>lastPrice\<close> and \<open>lastStatus\<close>
  start at \<open>0\<close>; the configuration fields are set by \<open>main\<close>.
\<close>

definition new_Main :: "double Main" where
  "new_Main = \<lparr>fetchInterval = 0, updateThreshold = Fin 0, updateInterval = 0, confidence = Fin 0,
       inactiveDuration = 0, minThreshold = Fin 0, maxThreshold = Fin 0,
       allowNegativeSpread = False, lastUpdate = 0, lastPrice = Fin 0, lastStatus = 0,
       logger = [], inflight = []\<rparr>"

text \<open>
  A running publisher: threshold 1 percent, forced update after 60 s, inactivity after
  120 s, bounds 50 and 150; last publish of price 100, valid, at time 0.
\<close>

definition running_Main :: "double Main" where
  "running_Main = \<lparr>fetchInterval = 1000, updateThreshold = Fin 1, updateInterval = 60000,
       confidence = Fin (1 / 2), inactiveDuration = 120000, minThreshold = Fin 50,
       maxThreshold = Fin 150, allowNegativeSpread = False, lastUpdate = 0, lastPrice = Fin 100,
       lastStatus = 1, logger = [], inflight = []\<rparr>"

definition net0 :: net where
  "net0 = \<lparr>clock = 0, sends = 0, queries = 0\<rparr>"

text \<open>A channel that accepts every broadcast at once and answers every query with a fixed reply.\<close>

definition steady_channel :: "query_reply \<Rightarrow> Connection" where
  "steady_channel q = \<lparr>sendRawTransaction = (\<lambda>k. SendOk 0 7), getTransaction = (\<lambda>k. q)\<rparr>"

text \<open>
  The same channel with every rejected status query replaced by a query that never
  settles, that is, by "no result yet".
\<close>

definition absorb_failures :: "Connection \<Rightarrow> Connection" where
  "absorb_failures conn =
     conn\<lparr>getTransaction := (\<lambda>k. case getTransaction conn k of QueryFail lat \<Rightarrow> QueryHang | q \<Rightarrow> q)\<rparr>"

text \<open>A channel that accepts the first broadcast and rejects every later one.\<close>

definition flaky_channel :: Connection where
  "flaky_channel = \<lparr>sendRawTransaction = (\<lambda>k. if k = 0 then SendOk 0 7 else SendFail 0),
       getTransaction = (\<lambda>k. QueryNull 0)\<rparr>"

text \<open>Passes of the loop: no route found, a failing route search, and two quotes.\<close>

definition quiet_tick :: "int \<Rightarrow> double JupiterTick" where
  "quiet_tick now = \<lparr>tick_now = now, routeInfo0 = Inr None, routeInfo1 = Inr None,
       blockhash_publish = Inr 1, blockhash_disable = Inr 2\<rparr>"

definition failed_tick :: "int \<Rightarrow> double JupiterTick" where
  "failed_tick now = \<lparr>tick_now = now, routeInfo0 = Inl NetworkError, routeInfo1 = Inr None,
       blockhash_publish = Inr 1, blockhash_disable = Inr 2\<rparr>"

definition quoted_tick :: "int \<Rightarrow> double \<Rightarrow> double \<Rightarrow> double JupiterTick" where
  "quoted_tick now bid ask = \<lparr>tick_now = now,
       routeInfo0 = Inr (Some \<lparr>inAmount = Fin 1, outAmount = bid\<rparr>),
       routeInfo1 = Inr (Some \<lparr>inAmount = ask, outAmount = Fin 1\<rparr>),
       blockhash_publish = Inr 1, blockhash_disable = Inr 2\<rparr>"

text \<open>A pass of the mSOL script with the given outcome of the price request.\<close>

definition mSOL_tick :: "int \<Rightarrow> error + double \<Rightarrow> double MarinadeTick" where
  "mSOL_tick now p = \<lparr>mtick_now = now, mSolPrice = p,
       mblockhash_publish = Inr 1, mblockhash_disable = Inr 2\<rparr>"

text \<open>A configuration whose \<open>inactiveDuration\<close> equals its \<open>updateInterval\<close>.\<close>

definition equal_durations :: "double Config" where
  "equal_durations = \<lparr>cfg_fetchInterval = 1000, cfg_updateThreshold = Fin 1,
       cfg_updateInterval = 1000, cfg_confidence = Fin (1 / 2), cfg_inactiveDuration = 1000,
       cfg_minThreshold = Fin 50, cfg_maxThreshold = Fin 150, cfg_allowNegativeSpread = False\<rparr>"


section \<open>Evaluating the double-precision arithmetic\<close>

lemma log2_up_numeral:
  "log2_up (numeral k) x = (if x < 2 then 0 else 1 + log2_up (pred_numeral k) (x / 2))"
  by (simp add: numeral_eq_Suc)

lemma log2_down_numeral:
  "log2_down (numeral k) x = (if 1 \<le> x then 0 else log2_down (pred_numeral k) (x * 2) - 1)"
  by (simp add: numeral_eq_Suc)

lemma binary64_sel:
  "n_lit binary64 k = fl (of_int k)" "n_add binary64 = d_add" "n_sub binary64 = d_sub"
  "n_mul binary64 = d_mul" "n_div binary64 = d_div" "n_abs binary64 = d_abs"
  "n_less binary64 = d_less" "n_truthy binary64 = d_truthy" "n_int binary64 = d_int"
  "other_u8 binary64 = node_uint" "other_s64 binary64 = node_near64 True"
  "other_u64 binary64 = node_near64 False" "other_u32 binary64 = node_uint"
  by (simp_all add: binary64_def)

lemmas double_simps = fl_def fl_ulp_def fl_pack_def pow2_def ilog2_def round_half_even_def
  log2_up_numeral log2_down_numeral d_add_def d_sub_def d_mul_def d_div_def d_less_def
  d_truthy_def d_int_def signed_zero_def signed_inf_def binary64_sel

lemmas node_simps = node_truncate_def node_write32_def node_near64_def node_uint_def

text \<open>The definitions unfolded when a pass of a script is run on the concrete states.\<close>

lemmas publisher_defs = tick_def observe_def tick_mSOL_def observe_mSOL_def publishIfNeeded_def
  getMarkPrice_def updatePrice_def composeUpdatePriceTransaction_def layout_encode_def
  field_u8_def field_s64_def field_u64_def field_u32_def
  oraclePrice_def publishStatus_def negativeSpread_def outOfThreshold_def
  disableIfInactive_def inactive_def needUpdate_def

lemmas run_simps = running_Main_def new_Main_def quoted_tick_def quiet_tick_def failed_tick_def
  mSOL_tick_def publisher_defs double_simps node_simps Let_def

section \<open>Properties of the update decision\<close>

text \<open>
  C1 (as stated in the specification, refuted): with a nonzero baseline, \<open>needUpdate\<close>
  would be true iff \<open>now >= lastUpdate + updateInterval\<close> or
  \<open>abs(price - lastPrice) / lastPrice * 100 > updateThreshold\<close>. Three inputs show the
  difference, in the arithmetic of the runtime. At \<open>now = lastUpdate + updateInterval\<close>
  exactly, with an unchanged price, the code answers false where the stated condition is
  true. With the baseline \<open>-100\<close> and the price \<open>-200\<close> the code answers true, since
  it takes the absolute value of the whole quotient, where the stated condition is false
  (the stated formula gives \<open>-100\<close>). With the baseline NaN, which is not zero, the code
  fails its assertion and returns nothing.
\<close>

theorem needUpdate_stated_counterexample:
  "n_truthy binary64 (lastPrice running_Main)
   \<and> needUpdate binary64 running_Main (Fin 100) 60000 = Inr False
   \<and> 60000 \<ge> lastUpdate running_Main + updateInterval running_Main
   \<and> n_truthy binary64 (Fin (- 100))
   \<and> needUpdate binary64 (running_Main\<lparr>lastPrice := Fin (- 100)\<rparr>) (Fin (- 200)) 1000 = Inr True
   \<and> \<not> 1000 \<ge> lastUpdate (running_Main\<lparr>lastPrice := Fin (- 100)\<rparr>)
                  + updateInterval (running_Main\<lparr>lastPrice := Fin (- 100)\<rparr>)
   \<and> \<not> n_less binary64 (updateThreshold (running_Main\<lparr>lastPrice := Fin (- 100)\<rparr>))
         (n_mul binary64
            (n_div binary64 (n_abs binary64 (n_sub binary64 (Fin (- 200)) (Fin (- 100)))) (Fin (- 100)))
            (n_lit binary64 100))
   \<and> NaN \<noteq> Fin 0 \<and> NaN \<noteq> NegZero
   \<and> needUpdate binary64 (running_Main\<lparr>lastPrice := NaN\<rparr>) (Fin 100) 1000 = Inl AssertionError"
  by (simp add: needUpdate_def running_Main_def double_simps)

text \<open>
  C1 (amended): with a truthy baseline (a number other than \<open>0\<close>, \<open>-0\<close> and NaN)
  \<open>needUpdate\<close> returns normally, for every observed price, and its answer is true iff
  \<open>now > lastUpdate + updateInterval\<close> (strictly) or
  \<open>Math.abs((price - lastPrice) / lastPrice * 100) > updateThreshold\<close>: the absolute
  value of the whole quotient, where the difference, the quotient, the product and the
  comparison are the operations of the runtime on numbers, with their rounding.
\<close>

theorem needUpdate_iff:
  "n_truthy R (lastPrice m) \<Longrightarrow>
     needUpdate R m price now =
       Inr (now > lastUpdate m + updateInterval m
            \<or> n_less R (updateThreshold m)
                 (n_abs R (n_mul R (n_div R (n_sub R price (lastPrice m)) (lastPrice m))
                                   (n_lit R 100))))"
  by (simp add: needUpdate_def)

text \<open>
  Baseline 100, 1000 ms after the last update, in double-precision arithmetic. The
  observed price 102: with a threshold of 1 percent the answer is true, with 5 percent
  false. The observed price 107 with a threshold of 7 percent: the deviation is computed
  as \<open>7.000000000000001\<close> (\<open>7881299347898369 / 2^50\<close>), and the answer is true.
\<close>

theorem needUpdate_iff_witness:
  "n_truthy binary64 (lastPrice running_Main)
   \<and> needUpdate binary64 running_Main (Fin 102) 1000 = Inr True
   \<and> needUpdate binary64 (running_Main\<lparr>updateThreshold := Fin 5\<rparr>) (Fin 102) 1000 = Inr False
   \<and> n_mul binary64 (n_div binary64 (n_sub binary64 (Fin 107) (Fin 100)) (Fin 100)) (n_lit binary64 100)
       = Fin (7881299347898369 / 1125899906842624)
   \<and> needUpdate binary64 (running_Main\<lparr>updateThreshold := Fin 7\<rparr>) (Fin 107) 1000 = Inr True"
proof -
  have t: "n_truthy binary64 (lastPrice running_Main)"
      "n_truthy binary64 (lastPrice (running_Main\<lparr>updateThreshold := Fin 5\<rparr>))"
      "n_truthy binary64 (lastPrice (running_Main\<lparr>updateThreshold := Fin 7\<rparr>))"
    by (simp_all add: running_Main_def double_simps)
  have v: "n_mul binary64 (n_div binary64 (n_sub binary64 (Fin 107) (Fin 100)) (Fin 100)) (n_lit binary64 100)
       = Fin (7881299347898369 / 1125899906842624)"
    by (simp add: double_simps)
  have a: "needUpdate binary64 running_Main (Fin 102) 1000 = Inr True"
    unfolding needUpdate_iff [OF t(1)] by (simp add: running_Main_def double_simps)
  have b: "needUpdate binary64 (running_Main\<lparr>updateThreshold := Fin 5\<rparr>) (Fin 102) 1000 = Inr False"
    unfolding needUpdate_iff [OF t(2)] by (simp add: running_Main_def double_simps)
  have c: "needUpdate binary64 (running_Main\<lparr>updateThreshold := Fin 7\<rparr>) (Fin 107) 1000 = Inr True"
    unfolding needUpdate_iff [OF t(3)] by (simp add: running_Main_def double_simps)
  from t(1) a b v c show ?thesis by blast
qed

text \<open>
  C4 (as stated in the specification, refuted): with a zero baseline the decision would
  always be "publish" and the assertion would be unreachable. A new object whose
  \<open>updateInterval\<close> has not yet passed fails the assertion. So does a running publisher
  after a publish of the price \<open>0\<close> (both quotes \<open>0\<close>): the next pass, one second later,
  ends in the assertion error, which the outer loop logs.
\<close>

theorem needUpdate_zero_baseline_counterexample:
  "lastPrice (new_Main\<lparr>updateInterval := 1000\<rparr>) = Fin 0
   \<and> needUpdate binary64 (new_Main\<lparr>updateInterval := 1000\<rparr>) (Fin 100) 500 = Inl AssertionError
   \<and> lastPrice (main_loop binary64 [quoted_tick 70000 (Fin 0) (Fin 0)] running_Main) = Fin 0
   \<and> logger (main_loop binary64 [quoted_tick 70000 (Fin 0) (Fin 0), quoted_tick 71000 (Fin 1) (Fin 1)]
               running_Main)
       = [DebugQuote (Fin 0) (Fin 0) (Fin 0), DebugUpdating (Fin 0) 0 70000,
          DebugQuote (Fin 1) (Fin 1) (Fin 1), ErrMainLoop AssertionError]"
  by (simp add: new_Main_def running_Main_def quoted_tick_def publisher_defs double_simps Let_def)

text \<open>
  C4 (amended): with a zero baseline (any falsy number: \<open>0\<close>, \<open>-0\<close>, and also NaN)
  \<open>needUpdate\<close> answers true when \<open>now > lastUpdate + updateInterval\<close>, and otherwise
  fails its assertion; it never answers false.
\<close>

theorem needUpdate_zero_baseline:
  "\<not> n_truthy R (lastPrice m) \<Longrightarrow>
     needUpdate R m price now =
       (if now > lastUpdate m + updateInterval m then Inr True else Inl AssertionError)"
  by (simp add: needUpdate_def)

text \<open>
  A new object at the first pass (the clock is far beyond \<open>updateInterval\<close>) publishes; the
  same object right after an update at that time fails the assertion.
\<close>

theorem needUpdate_zero_baseline_witness:
  "lastPrice new_Main = Fin 0
   \<and> \<not> n_truthy binary64 (Fin 0)
   \<and> needUpdate binary64 new_Main (Fin 100) 1700000000000 = Inr True
   \<and> needUpdate binary64 (new_Main\<lparr>lastUpdate := 1700000000000\<rparr>) (Fin 100) 1700000000000
       = Inl AssertionError"
proof -
  have z: "\<not> n_truthy binary64 (lastPrice new_Main)"
    and z1: "\<not> n_truthy binary64 (lastPrice (new_Main\<lparr>lastUpdate := 1700000000000\<rparr>))"
    by (simp_all add: new_Main_def double_simps)
  have l: "lastPrice new_Main = Fin 0" by (simp add: new_Main_def)
  have a: "needUpdate binary64 new_Main (Fin 100) 1700000000000 = Inr True"
    unfolding needUpdate_zero_baseline [OF z] by (simp add: new_Main_def)
  have b: "needUpdate binary64 (new_Main\<lparr>lastUpdate := 1700000000000\<rparr>) (Fin 100) 1700000000000
       = Inl AssertionError"
    unfolding needUpdate_zero_baseline [OF z1] by (simp add: new_Main_def)
  from l z a b show ?thesis by (simp add: new_Main_def)
qed

section \<open>Auxiliary facts on the publisher and on the layout\<close>

lemma publishStatus_logger [simp]:
  "publishStatus R (m\<lparr>logger := l\<rparr>) bid ask price = publishStatus R m bid ask price"
  by (simp add: publishStatus_def outOfThreshold_def)

lemma needUpdate_logger [simp]:
  "needUpdate R (m\<lparr>logger := l\<rparr>) price now = needUpdate R m price now"
  by (simp add: needUpdate_def)

lemma updatePrice_ok_fields:
  "updatePrice R v price status now bh m = (Inr u, m') \<Longrightarrow>
     lastPrice m' = price \<and> lastStatus m' = status \<and> lastUpdate m' = now"
  by (auto simp: updatePrice_def Let_def split: sum.splits)

lemma updatePrice_fault_fields:
  "updatePrice R v price status now bh m = (Inl e, m') \<Longrightarrow>
     lastPrice m' = lastPrice m \<and> lastStatus m' = lastStatus m \<and> lastUpdate m' = lastUpdate m
     \<and> inflight m' = inflight m"
  by (auto simp: updatePrice_def Let_def split: sum.splits)

text \<open>A publish that returns has put one signed transaction in flight, with the composed data.\<close>

lemma updatePrice_ok_inflight:
  "updatePrice R v price status now bh m = (Inr u, m') \<Longrightarrow>
     \<exists>d h. bh = Inr h
       \<and> layout_encode R 0 (n_mul R (oraclePrice R v price) (n_lit R 100000000))
            (n_mul R (confidence m) (n_lit R 10000)) status = Inr d
       \<and> inflight m' = inflight m @ [\<lparr>data = d, recentBlockhash = Some h, txSigned = True\<rparr>]"
  by (auto simp: updatePrice_def composeUpdatePriceTransaction_def Let_def split: sum.splits)

lemma publishStatus_range: "publishStatus R m bid ask price \<in> {0, 1}"
  by (simp add: publishStatus_def)

lemma updatePrice_status_range:
  "status \<in> {0, 1} \<Longrightarrow> lastStatus m \<in> {0, 1} \<Longrightarrow>
     lastStatus (snd (updatePrice R v price status now bh m)) \<in> {0, 1}"
  by (auto simp: updatePrice_def Let_def split: sum.splits)

lemma publishIfNeeded_status_range:
  assumes "lastStatus m \<in> {0, 1}"
  shows "lastStatus (snd (publishIfNeeded R r0 r1 now bh m)) \<in> {0, 1}"
proof -
  define bid where "bid = n_div R (outAmount r0) (inAmount r0)"
  define ask where "ask = n_div R (inAmount r1) (outAmount r1)"
  define price where "price = getMarkPrice R bid ask"
  define m1 where "m1 = m\<lparr>logger := logger m @ [DebugQuote bid ask price]\<rparr>"
  have m1: "lastStatus m1 \<in> {0, 1}"
    using assms by (simp add: m1_def)
  have eq: "publishIfNeeded R r0 r1 now bh m =
      (case needUpdate R m1 price now of
         Inl e \<Rightarrow> (Inl e, m1)
       | Inr True \<Rightarrow> updatePrice R Jupiter price (publishStatus R m1 bid ask price) now bh m1
       | Inr False \<Rightarrow> (Inr (), m1))"
    by (simp only: publishIfNeeded_def Let_def bid_def ask_def price_def m1_def)
  show ?thesis
  proof (cases "needUpdate R m1 price now")
    case (Inl e)
    with m1 show ?thesis by (simp add: eq)
  next
    case (Inr b)
    show ?thesis
    proof (cases b)
      case True
      with Inr have "publishIfNeeded R r0 r1 now bh m
          = updatePrice R Jupiter price (publishStatus R m1 bid ask price) now bh m1"
        by (simp add: eq)
      then show ?thesis
        using updatePrice_status_range [OF publishStatus_range m1] by simp
    next
      case False
      with Inr m1 show ?thesis by (simp add: eq)
    qed
  qed
qed

lemma observe_status_range:
  assumes "lastStatus m \<in> {0, 1}"
  shows "lastStatus (snd (observe R t m)) \<in> {0, 1}"
proof (cases "routeInfo0 t")
  case (Inl e)
  with assms show ?thesis by (simp add: observe_def)
next
  case r0: (Inr r0)
  show ?thesis
  proof (cases "routeInfo1 t")
    case (Inl e)
    with r0 assms show ?thesis by (simp add: observe_def)
  next
    case r1: (Inr r1)
    show ?thesis
    proof (cases r0)
      case None
      with r0 r1 assms show ?thesis by (simp add: observe_def)
    next
      case a: (Some a)
      show ?thesis
      proof (cases r1)
        case None
        with r0 r1 a assms show ?thesis by (simp add: observe_def)
      next
        case (Some b)
        with r0 r1 a show ?thesis
          using publishIfNeeded_status_range [OF assms] by (simp add: observe_def)
      qed
    qed
  qed
qed

lemma observe_mSOL_status_range:
  assumes "lastStatus m \<in> {0, 1}"
  shows "lastStatus (snd (observe_mSOL R t m)) \<in> {0, 1}"
proof (cases "mSolPrice t")
  case (Inl e)
  with assms show ?thesis by (simp add: observe_mSOL_def)
next
  case p: (Inr p)
  show ?thesis
  proof (cases "n_truthy R p")
    case False
    with p assms show ?thesis by (simp add: observe_mSOL_def)
  next
    case nz: True
    show ?thesis
    proof (cases "needUpdate R m p (mtick_now t)")
      case (Inl e)
      with p nz assms show ?thesis by (simp add: observe_mSOL_def)
    next
      case (Inr b)
      have one: "(1::int) \<in> {0, 1}" by simp
      show ?thesis
      proof (cases b)
        case True
        with Inr p nz show ?thesis
          using updatePrice_status_range [OF one assms] by (simp add: observe_mSOL_def)
      next
        case False
        with Inr p nz assms show ?thesis by (simp add: observe_mSOL_def)
      qed
    qed
  qed
qed

text \<open>
  The status field of a payload is its last four bytes: whatever the package stores in
  the other fields, a payload encoded with a status in the range of the field decodes to
  that status.
\<close>

lemma length_le_bytes: "length (le_bytes n w) = n"
  by (induction n arbitrary: w) simp_all

lemma le_word_step:
  "(ucast (ucast (w :: 'a::len word) :: 8 word) :: 'a word) OR push_bit 8 (take_bit k (drop_bit 8 w))
     = take_bit (8 + k) w"
proof (rule bit_word_eqI)
  fix n assume n: "n < LENGTH('a)"
  show "bit (ucast (ucast w :: 8 word) OR push_bit 8 (take_bit k (drop_bit 8 w))) n
          = bit (take_bit (8 + k) w) n"
  proof (cases "n < 8")
    case True
    with n show ?thesis
      by (simp add: bit_or_iff bit_push_bit_iff bit_take_bit_iff bit_drop_bit_eq bit_ucast_iff)
  next
    case False
    then have "8 + (n - 8) = n" by simp
    with False n show ?thesis
      by (simp add: bit_or_iff bit_push_bit_iff bit_take_bit_iff bit_drop_bit_eq bit_ucast_iff
          less_diff_conv2 add.commute)
  qed
qed

lemma le_word_le_bytes: "le_word (le_bytes n w) = take_bit (8 * n) w"
proof (induction n arbitrary: w)
  case 0
  show ?case by simp
next
  case (Suc n)
  have "le_word (le_bytes (Suc n) w)
          = ucast (ucast w :: 8 word) OR push_bit 8 (take_bit (8 * n) (drop_bit 8 w))"
    by (simp add: Suc)
  also have "\<dots> = take_bit (8 + 8 * n) w" by (rule le_word_step)
  finally show ?case by simp
qed

lemma le_word_le_bytes_full:
  "LENGTH('a::len) \<le> 8 * n \<Longrightarrow> le_word (le_bytes n (w :: 'a word)) = w"
  by (simp add: le_word_le_bytes take_bit_word_eq_self)

lemma layout_decode_fields:
  fixes i :: "8 word" and p c :: "64 word" and s :: "32 word"
  shows "layout_decode (le_bytes 1 i @ le_bytes 8 p @ le_bytes 8 c @ le_bytes 4 s)
           = Some (uint i, sint p, uint c, uint s)"
  by (simp add: layout_decode_def length_le_bytes le_word_le_bytes_full)

lemma uint_u32: "0 \<le> x \<Longrightarrow> x < 2 ^ 32 \<Longrightarrow> uint (word_of_int x :: 32 word) = x"
  by (simp add: uint_word_of_int take_bit_int_eq_self)

lemma uint_u8: "0 \<le> x \<Longrightarrow> x < 2 ^ 8 \<Longrightarrow> uint (word_of_int x :: 8 word) = x"
  by (simp add: uint_word_of_int take_bit_int_eq_self)

lemma uint_u64: "0 \<le> x \<Longrightarrow> x < 2 ^ 64 \<Longrightarrow> uint (word_of_int x :: 64 word) = x"
  by (simp add: uint_word_of_int take_bit_int_eq_self)

lemma sint_s64: "- (2 ^ 63) \<le> x \<Longrightarrow> x < 2 ^ 63 \<Longrightarrow> sint (word_of_int x :: 64 word) = x"
  by (simp add: sint_sbintrunc' signed_take_bit_int_eq_self)

lemma layout_encode_Inr:
  assumes "layout_encode R instruction price conf status = Inr d"
  shows "\<exists>i p c s. field_u8 R instruction = Inr i \<and> field_s64 R price = Inr p
           \<and> field_u64 R conf = Inr c \<and> field_u32 R status = Inr s
           \<and> d = le_bytes 1 i @ le_bytes 8 p @ le_bytes 8 c @ le_bytes 4 s"
proof (cases "field_u8 R instruction")
  case (Inl e)
  with assms show ?thesis by (simp add: layout_encode_def)
next
  case i: (Inr i)
  show ?thesis
  proof (cases "field_s64 R price")
    case (Inl e)
    with assms i show ?thesis by (simp add: layout_encode_def)
  next
    case p: (Inr p)
    show ?thesis
    proof (cases "field_u64 R conf")
      case (Inl e)
      with assms i p show ?thesis by (simp add: layout_encode_def)
    next
      case c: (Inr c)
      show ?thesis
      proof (cases "field_u32 R status")
        case (Inl e)
        with assms i p c show ?thesis by (simp add: layout_encode_def)
      next
        case s: (Inr s)
        from assms have "d = le_bytes 1 i @ le_bytes 8 p @ le_bytes 8 c @ le_bytes 4 s"
          unfolding layout_encode_def i p c s by simp
        with i p c s show ?thesis by blast
      qed
    qed
  qed
qed

lemma layout_encode_status:
  assumes "layout_encode R 0 price conf status = Inr d" and "0 \<le> status" and "status < 2 ^ 32"
  shows "\<exists>p c. layout_decode d = Some (0, p, c, status)"
proof -
  from layout_encode_Inr [OF assms(1)] obtain i p c s where
    i: "field_u8 R 0 = Inr i" and s: "field_u32 R status = Inr s"
    and d: "d = le_bytes 1 i @ le_bytes 8 (p :: 64 word) @ le_bytes 8 (c :: 64 word) @ le_bytes 4 s"
    by blast
  have i0: "i = 0" using i by (simp add: field_u8_def)
  have sv: "s = word_of_int status" using s assms(2,3) by (simp add: field_u32_def)
  have "layout_decode d = Some (uint i, sint p, uint c, uint s)"
    unfolding d by (rule layout_decode_fields)
  then show ?thesis
    using i0 sv uint_u32 [OF assms(2,3)] by simp
qed

section \<open>Properties of the payload\<close>

text \<open>
  C6 (as stated in the specification, refuted): for every price, confidence and status the
  payload would decode to \<open>(price * 1e8, confidence * 1e4, status)\<close> exactly. The price
  \<open>2^-30\<close> scales to \<open>0.0931...\<close> (\<open>390625 / 4194304\<close>, computed without rounding),
  which is no integer, while the price field of a payload decodes to an integer: here the
  payload decodes to the price \<open>0\<close>. With the confidence \<open>-1\<close>, or with the price
  \<open>-2^-30\<close>, no payload is produced: composing the transaction throws.
\<close>

theorem payload_roundtrip_counterexample:
  "n_mul binary64 (Fin (1 / 1073741824)) (n_lit binary64 100000000) = Fin (390625 / 4194304)
   \<and> n_int binary64 (Fin (390625 / 4194304)) = None
   \<and> composeUpdatePriceTransaction binary64 (Fin (1 / 1073741824)) (Fin (1 / 2)) 1
     = Inr \<lparr>data = [0, 0, 0, 0, 0, 0, 0, 0, 0, 136, 19, 0, 0, 0, 0, 0, 0, 1, 0, 0, 0],
            recentBlockhash = None, txSigned = False\<rparr>
   \<and> layout_decode [0, 0, 0, 0, 0, 0, 0, 0, 0, 136, 19, 0, 0, 0, 0, 0, 0, 1, 0, 0, 0]
     = Some (0, 0, 5000, 1)
   \<and> composeUpdatePriceTransaction binary64 (Fin 1) (Fin (- 1)) 1 = Inl RangeError
   \<and> composeUpdatePriceTransaction binary64 (Fin (- 1 / 1073741824)) (Fin (1 / 2)) 1
     = Inl RangeError"
proof -
  have m: "n_mul binary64 (Fin (1 / 1073741824)) (n_lit binary64 100000000)
             = Fin (390625 / 4194304)"
    by (simp add: double_simps)
  have i: "n_int binary64 (Fin (390625 / 4194304)) = None"
    by (simp add: double_simps)
  have p: "field_s64 binary64 (Fin (390625 / 4194304)) = Inr 0"
    by (simp add: field_s64_def double_simps node_simps Let_def)
  have mc: "n_mul binary64 (Fin (1 / 2)) (n_lit binary64 10000) = Fin 5000"
    by (simp add: double_simps)
  have c: "field_u64 binary64 (Fin 5000) = Inr 5000"
    by (simp add: field_u64_def double_simps)
  have bytes: "le_bytes 1 (0 :: 8 word) @ le_bytes 8 (0 :: 64 word)
         @ le_bytes 8 (5000 :: 64 word) @ le_bytes 4 (word_of_int 1 :: 32 word)
       = [0, 0, 0, 0, 0, 0, 0, 0, 0, 136, 19, 0, 0, 0, 0, 0, 0, 1, 0, 0, 0]"
    by code_simp
  have a: "composeUpdatePriceTransaction binary64 (Fin (1 / 1073741824)) (Fin (1 / 2)) 1
     = Inr \<lparr>data = [0, 0, 0, 0, 0, 0, 0, 0, 0, 136, 19, 0, 0, 0, 0, 0, 0, 1, 0, 0, 0],
            recentBlockhash = None, txSigned = False\<rparr>"
    unfolding composeUpdatePriceTransaction_def layout_encode_def m mc p c bytes [symmetric]
    by (simp add: field_u8_def field_u32_def)
  have d: "layout_decode [0, 0, 0, 0, 0, 0, 0, 0, 0, 136, 19, 0, 0, 0, 0, 0, 0, 1, 0, 0, 0]
     = Some (0, 0, 5000, 1)"
    by code_simp
  have m1: "n_mul binary64 (Fin 1) (n_lit binary64 100000000) = Fin 100000000"
    by (simp add: double_simps)
  have p1: "field_s64 binary64 (Fin 100000000) = Inr 100000000"
    by (simp add: field_s64_def double_simps)
  have mn: "n_mul binary64 (Fin (- 1)) (n_lit binary64 10000) = Fin (- 10000)"
    by (simp add: double_simps)
  have cn: "field_u64 binary64 (Fin (- 10000)) = Inl RangeError"
    by (simp add: field_u64_def double_simps node_simps Let_def)
  have e: "composeUpdatePriceTransaction binary64 (Fin 1) (Fin (- 1)) 1 = Inl RangeError"
    unfolding composeUpdatePriceTransaction_def layout_encode_def m1 mn p1 cn
    by (simp add: field_u8_def)
  have mf: "n_mul binary64 (Fin (- 1 / 1073741824)) (n_lit binary64 100000000)
             = Fin (- 390625 / 4194304)"
    by (simp add: double_simps)
  have pf: "field_s64 binary64 (Fin (- 390625 / 4194304)) = Inl RangeError"
    by (simp add: field_s64_def double_simps node_simps Let_def)
  have f: "composeUpdatePriceTransaction binary64 (Fin (- 1 / 1073741824)) (Fin (1 / 2)) 1
     = Inl RangeError"
    unfolding composeUpdatePriceTransaction_def layout_encode_def mf mc pf
    by (simp add: field_u8_def)
  from m i a d e f show ?thesis by blast
qed

text \<open>
  C6 (amended): when \<open>price * 100_000_000\<close>, as the runtime computes it, is an integer
  \<open>p\<close> in the signed 64-bit range (zero and negative prices included),
  \<open>confidence * 10_000\<close>, as the runtime computes it, is an integer \<open>c\<close> in the unsigned
  64-bit range, and the status is in the unsigned 32-bit range, the payload is the 21 bytes
  \<open>[instruction: u8 = 0][p: signed 64-bit][c: unsigned 64-bit][status: u32]\<close>, each field
  little-endian, and decoding that layout gives back \<open>(0, p, c, status)\<close> exactly.
\<close>

theorem payload_roundtrip:
  assumes "n_int R (n_mul R price (n_lit R 100000000)) = Some p"
    and "- (2 ^ 63) \<le> p" and "p < 2 ^ 63"
    and "n_int R (n_mul R conf (n_lit R 10000)) = Some c" and "0 \<le> c" and "c < 2 ^ 64"
    and "0 \<le> status" and "status < 2 ^ 32"
  shows "composeUpdatePriceTransaction R price conf status
           = Inr \<lparr>data = le_bytes 1 (0 :: 8 word)
                        @ le_bytes 8 (word_of_int p :: 64 word)
                        @ le_bytes 8 (word_of_int c :: 64 word)
                        @ le_bytes 4 (word_of_int status :: 32 word),
                  recentBlockhash = None, txSigned = False\<rparr>
         \<and> length (le_bytes 1 (0 :: 8 word)
                        @ le_bytes 8 (word_of_int p :: 64 word)
                        @ le_bytes 8 (word_of_int c :: 64 word)
                        @ le_bytes 4 (word_of_int status :: 32 word)) = 21
         \<and> layout_decode (le_bytes 1 (0 :: 8 word)
                        @ le_bytes 8 (word_of_int p :: 64 word)
                        @ le_bytes 8 (word_of_int c :: 64 word)
                        @ le_bytes 4 (word_of_int status :: 32 word))
             = Some (0, p, c, status)"
proof -
  have i: "field_u8 R 0 = Inr 0"
    by (simp add: field_u8_def)
  have fp: "field_s64 R (n_mul R price (n_lit R 100000000)) = Inr (word_of_int p)"
    using assms(1,2,3) by (simp add: field_s64_def)
  have fc: "field_u64 R (n_mul R conf (n_lit R 10000)) = Inr (word_of_int c)"
    using assms(4,5,6) by (simp add: field_u64_def)
  have fs: "field_u32 R status = Inr (word_of_int status)"
    using assms(7,8) by (simp add: field_u32_def)
  have enc: "composeUpdatePriceTransaction R price conf status
           = Inr \<lparr>data = le_bytes 1 (0 :: 8 word)
                        @ le_bytes 8 (word_of_int p :: 64 word)
                        @ le_bytes 8 (word_of_int c :: 64 word)
                        @ le_bytes 4 (word_of_int status :: 32 word),
                  recentBlockhash = None, txSigned = False\<rparr>"
    unfolding composeUpdatePriceTransaction_def layout_encode_def i fp fc fs by simp
  have len: "length (le_bytes 1 (0 :: 8 word)
                        @ le_bytes 8 (word_of_int p :: 64 word)
                        @ le_bytes 8 (word_of_int c :: 64 word)
                        @ le_bytes 4 (word_of_int status :: 32 word)) = 21"
    by (simp add: length_le_bytes)
  have dec: "layout_decode (le_bytes 1 (0 :: 8 word)
                        @ le_bytes 8 (word_of_int p :: 64 word)
                        @ le_bytes 8 (word_of_int c :: 64 word)
                        @ le_bytes 4 (word_of_int status :: 32 word))
             = Some (0, p, c, status)"
    unfolding layout_decode_fields
    using sint_s64 [OF assms(2,3)] uint_u64 [OF assms(5,6)] uint_u32 [OF assms(7,8)] by simp
  from enc len dec show ?thesis by blast
qed

text \<open>
  The prices \<open>-1.5\<close> and \<open>0\<close> with confidence \<open>0.5\<close>, and the bytes for the price 102.
  The price \<open>90071992547\<close>: the product with \<open>100_000_000\<close> is rounded to
  \<open>9007199254700000256\<close>, and this is the integer that the payload holds.
\<close>

theorem payload_roundtrip_witness:
  "n_int binary64 (n_mul binary64 (Fin (- 3 / 2)) (n_lit binary64 100000000)) = Some (- 150000000)
   \<and> n_int binary64 (n_mul binary64 (Fin (1 / 2)) (n_lit binary64 10000)) = Some 5000
   \<and> (\<exists>d. composeUpdatePriceTransaction binary64 (Fin (- 3 / 2)) (Fin (1 / 2)) 1
            = Inr \<lparr>data = d, recentBlockhash = None, txSigned = False\<rparr>
         \<and> length d = 21 \<and> layout_decode d = Some (0, - 150000000, 5000, 1))
   \<and> (\<exists>d. composeUpdatePriceTransaction binary64 (Fin 0) (Fin (1 / 2)) 0
            = Inr \<lparr>data = d, recentBlockhash = None, txSigned = False\<rparr>
         \<and> length d = 21 \<and> layout_decode d = Some (0, 0, 5000, 0))
   \<and> composeUpdatePriceTransaction binary64 (Fin 102) (Fin (1 / 2)) 1
       = Inr \<lparr>data = [0, 0, 166, 247, 95, 2, 0, 0, 0, 136, 19, 0, 0, 0, 0, 0, 0, 1, 0, 0, 0],
              recentBlockhash = None, txSigned = False\<rparr>
   \<and> n_int binary64 (n_mul binary64 (Fin 90071992547) (n_lit binary64 100000000))
       = Some 9007199254700000256
   \<and> (\<exists>d. composeUpdatePriceTransaction binary64 (Fin 90071992547) (Fin (1 / 2)) 1
            = Inr \<lparr>data = d, recentBlockhash = None, txSigned = False\<rparr>
         \<and> layout_decode d = Some (0, 9007199254700000256, 5000, 1))"
proof -
  have pn: "n_int binary64 (n_mul binary64 (Fin (- 3 / 2)) (n_lit binary64 100000000))
              = Some (- 150000000)"
    and p0: "n_int binary64 (n_mul binary64 (Fin 0) (n_lit binary64 100000000)) = Some 0"
    and p102: "n_int binary64 (n_mul binary64 (Fin 102) (n_lit binary64 100000000))
              = Some 10200000000"
    and pbig: "n_int binary64 (n_mul binary64 (Fin 90071992547) (n_lit binary64 100000000))
              = Some 9007199254700000256"
    and c: "n_int binary64 (n_mul binary64 (Fin (1 / 2)) (n_lit binary64 10000)) = Some 5000"
    by (simp_all add: double_simps)
  have a: "\<exists>d. composeUpdatePriceTransaction binary64 (Fin (- 3 / 2)) (Fin (1 / 2)) 1
            = Inr \<lparr>data = d, recentBlockhash = None, txSigned = False\<rparr>
         \<and> length d = 21 \<and> layout_decode d = Some (0, - 150000000, 5000, 1)"
    using payload_roundtrip [OF pn _ _ c, of 1] by simp
  have b: "\<exists>d. composeUpdatePriceTransaction binary64 (Fin 0) (Fin (1 / 2)) 0
            = Inr \<lparr>data = d, recentBlockhash = None, txSigned = False\<rparr>
         \<and> length d = 21 \<and> layout_decode d = Some (0, 0, 5000, 0)"
    using payload_roundtrip [OF p0 _ _ c, of 0] by simp
  have bytes: "le_bytes 1 (0 :: 8 word) @ le_bytes 8 (word_of_int 10200000000 :: 64 word)
         @ le_bytes 8 (word_of_int 5000 :: 64 word) @ le_bytes 4 (word_of_int 1 :: 32 word)
       = [0, 0, 166, 247, 95, 2, 0, 0, 0, 136, 19, 0, 0, 0, 0, 0, 0, 1, 0, 0, 0]"
    by code_simp
  have d: "composeUpdatePriceTransaction binary64 (Fin 102) (Fin (1 / 2)) 1
       = Inr \<lparr>data = [0, 0, 166, 247, 95, 2, 0, 0, 0, 136, 19, 0, 0, 0, 0, 0, 0, 1, 0, 0, 0],
              recentBlockhash = None, txSigned = False\<rparr>"
    using payload_roundtrip [OF p102 _ _ c, of 1] unfolding bytes by simp
  have e: "\<exists>d. composeUpdatePriceTransaction binary64 (Fin 90071992547) (Fin (1 / 2)) 1
            = Inr \<lparr>data = d, recentBlockhash = None, txSigned = False\<rparr>
         \<and> layout_decode d = Some (0, 9007199254700000256, 5000, 1)"
    using payload_roundtrip [OF pbig _ _ c, of 1] by simp
  from pn c a b d pbig e show ?thesis by blast
qed

section \<open>Properties of the publisher\<close>

text \<open>
  C7: in the Jupiter script, for every pair of routes and every configuration, with
  \<open>bid = outAmount / inAmount\<close> of the first route, \<open>ask = inAmount / outAmount\<close> of the
  second and \<open>price = (bid + ask) / 2\<close> as the runtime computes them (a zero divisor
  included), the status of a regular publish is \<open>0\<close> (invalid) iff \<open>bid > ask\<close> while
  \<open>allowNegativeSpread\<close> is false, or \<open>price < minThreshold\<close>, or
  \<open>price > maxThreshold\<close>, and \<open>1\<close> (valid) otherwise, the comparisons being those of
  the runtime. When \<open>needUpdate\<close> decides to publish, \<open>updatePrice\<close> is called with
  that status; when the call returns normally, that status is \<open>lastStatus\<close> and is the
  status field of the payload of the one transaction handed to the delivery protocol. When
  \<open>needUpdate\<close> decides not to publish, the pass only logs the quotes and no status is
  used.
\<close>

theorem publish_status:
  "bid = n_div R (outAmount r0) (inAmount r0) \<Longrightarrow> ask = n_div R (inAmount r1) (outAmount r1) \<Longrightarrow>
   price = getMarkPrice R bid ask \<Longrightarrow>
     publishStatus R m bid ask price
       = (if (n_less R ask bid \<and> \<not> allowNegativeSpread m)
             \<or> n_less R price (minThreshold m) \<or> n_less R (maxThreshold m) price
          then 0 else 1)
     \<and> (needUpdate R m price now = Inr True \<longrightarrow>
          publishIfNeeded R r0 r1 now bh m
            = updatePrice R Jupiter price (publishStatus R m bid ask price) now bh
                (m\<lparr>logger := logger m @ [DebugQuote bid ask price]\<rparr>))
     \<and> (needUpdate R m price now = Inr True \<and> publishIfNeeded R r0 r1 now bh m = (Inr (), m') \<longrightarrow>
          lastStatus m' = publishStatus R m bid ask price
          \<and> (\<exists>d h p c. bh = Inr h
                \<and> inflight m' = inflight m @ [\<lparr>data = d, recentBlockhash = Some h, txSigned = True\<rparr>]
                \<and> layout_decode d = Some (0, p, c, publishStatus R m bid ask price)))
     \<and> (needUpdate R m price now = Inr False \<longrightarrow>
          publishIfNeeded R r0 r1 now bh m
            = (Inr (), m\<lparr>logger := logger m @ [DebugQuote bid ask price]\<rparr>))"
proof -
  assume b: "bid = n_div R (outAmount r0) (inAmount r0)"
    and a: "ask = n_div R (inAmount r1) (outAmount r1)"
    and p: "price = getMarkPrice R bid ask"
  let ?m1 = "m\<lparr>logger := logger m @ [DebugQuote bid ask price]\<rparr>"
  let ?st = "publishStatus R m bid ask price"
  have unfold: "publishIfNeeded R r0 r1 now bh m =
      (case needUpdate R m price now of
         Inl e \<Rightarrow> (Inl e, ?m1)
       | Inr True \<Rightarrow> updatePrice R Jupiter price ?st now bh ?m1
       | Inr False \<Rightarrow> (Inr (), ?m1))"
    unfolding publishIfNeeded_def Let_def b a p by (simp split: sum.split bool.split)
  have st: "?st
       = (if (n_less R ask bid \<and> \<not> allowNegativeSpread m)
             \<or> n_less R price (minThreshold m) \<or> n_less R (maxThreshold m) price
          then 0 else 1)"
    unfolding publishStatus_def negativeSpread_def outOfThreshold_def by auto
  have yes: "needUpdate R m price now = Inr True \<longrightarrow>
          publishIfNeeded R r0 r1 now bh m = updatePrice R Jupiter price ?st now bh ?m1"
    by (simp add: unfold)
  have yes_status: "needUpdate R m price now = Inr True
        \<and> publishIfNeeded R r0 r1 now bh m = (Inr (), m') \<longrightarrow>
          lastStatus m' = ?st
          \<and> (\<exists>d h p c. bh = Inr h
                \<and> inflight m' = inflight m @ [\<lparr>data = d, recentBlockhash = Some h, txSigned = True\<rparr>]
                \<and> layout_decode d = Some (0, p, c, ?st))"
  proof
    assume h: "needUpdate R m price now = Inr True
        \<and> publishIfNeeded R r0 r1 now bh m = (Inr (), m')"
    then have up: "updatePrice R Jupiter price ?st now bh ?m1 = (Inr (), m')"
      using yes by simp
    have ls: "lastStatus m' = ?st"
      using updatePrice_ok_fields [OF up] by simp
    from updatePrice_ok_inflight [OF up]
    obtain d h where bh: "bh = Inr h"
      and enc: "layout_encode R 0 (n_mul R (oraclePrice R Jupiter price) (n_lit R 100000000))
            (n_mul R (confidence ?m1) (n_lit R 10000)) ?st = Inr d"
      and fl: "inflight m' = inflight ?m1 @ [\<lparr>data = d, recentBlockhash = Some h, txSigned = True\<rparr>]"
      by blast
    have r: "0 \<le> ?st" "?st < 2 ^ 32"
      using publishStatus_range [of R m bid ask price] by auto
    from layout_encode_status [OF enc r]
    obtain pp cc where "layout_decode d = Some (0, pp, cc, ?st)" by blast
    with bh fl ls show "lastStatus m' = ?st
          \<and> (\<exists>d h p c. bh = Inr h
                \<and> inflight m' = inflight m @ [\<lparr>data = d, recentBlockhash = Some h, txSigned = True\<rparr>]
                \<and> layout_decode d = Some (0, p, c, ?st))"
      by auto
  qed
  have no: "needUpdate R m price now = Inr False \<longrightarrow>
          publishIfNeeded R r0 r1 now bh m = (Inr (), ?m1)"
    by (simp add: unfold)
  from st yes yes_status no show ?thesis by blast
qed

text \<open>
  Quotes 101 and 103 around a baseline of 100: published as valid, with status \<open>1\<close> in
  the payload in flight. Crossed quotes: invalid, unless \<open>allowNegativeSpread\<close> is set.
  Prices outside the bounds 50 and 150: invalid. A price within 1 percent of the baseline:
  only the quotes are logged. A second route with \<open>outAmount = 0\<close>: the ask and the price
  are \<open>Infinity\<close>, the status is \<open>0\<close>, and composing the transaction throws, so that
  nothing is handed to the delivery protocol. The quotes \<open>50 - 2^-47\<close> and 50: the price
  is computed as 50, which is not below the bound 50, and the status is \<open>1\<close>.
\<close>

theorem publish_status_witness:
  "needUpdate binary64 running_Main (Fin 102) 1000 = Inr True
   \<and> publishStatus binary64 running_Main (Fin 101) (Fin 103) (Fin 102) = 1
   \<and> fst (publishIfNeeded binary64 \<lparr>inAmount = Fin 1, outAmount = Fin 101\<rparr>
            \<lparr>inAmount = Fin 103, outAmount = Fin 1\<rparr> 1000 (Inr 5) running_Main) = Inr ()
   \<and> lastStatus (snd (publishIfNeeded binary64 \<lparr>inAmount = Fin 1, outAmount = Fin 101\<rparr>
            \<lparr>inAmount = Fin 103, outAmount = Fin 1\<rparr> 1000 (Inr 5) running_Main)) = 1
   \<and> (\<exists>d p c. inflight (snd (publishIfNeeded binary64 \<lparr>inAmount = Fin 1, outAmount = Fin 101\<rparr>
            \<lparr>inAmount = Fin 103, outAmount = Fin 1\<rparr> 1000 (Inr 5) running_Main))
          = [\<lparr>data = d, recentBlockhash = Some 5, txSigned = True\<rparr>]
        \<and> layout_decode d = Some (0, p, c, 1))
   \<and> publishStatus binary64 running_Main (Fin 103) (Fin 101) (Fin 102) = 0
   \<and> publishStatus binary64 (running_Main\<lparr>allowNegativeSpread := True\<rparr>) (Fin 103) (Fin 101) (Fin 102) = 1
   \<and> publishStatus binary64 running_Main (Fin 160) (Fin 170) (Fin 165) = 0
   \<and> publishStatus binary64 running_Main (Fin 30) (Fin 40) (Fin 35) = 0
   \<and> needUpdate binary64 running_Main (Fin (201 / 2)) 1000 = Inr False
   \<and> publishIfNeeded binary64 \<lparr>inAmount = Fin 1, outAmount = Fin 100\<rparr>
        \<lparr>inAmount = Fin 101, outAmount = Fin 1\<rparr> 1000 (Inr 5) running_Main
       = (Inr (), running_Main\<lparr>logger := [DebugQuote (Fin 100) (Fin 101) (Fin (201 / 2))]\<rparr>)
   \<and> publishStatus binary64 running_Main (Fin 101) PInf PInf = 0
   \<and> publishIfNeeded binary64 \<lparr>inAmount = Fin 1, outAmount = Fin 101\<rparr>
        \<lparr>inAmount = Fin 103, outAmount = Fin 0\<rparr> 1000 (Inr 5) running_Main
       = (Inl RangeError,
          running_Main\<lparr>logger := [DebugQuote (Fin 101) PInf PInf, DebugUpdating PInf 0 1000]\<rparr>)
   \<and> getMarkPrice binary64 (Fin (7036874417766399 / 140737488355328)) (Fin 50) = Fin 50
   \<and> publishStatus binary64 running_Main (Fin (7036874417766399 / 140737488355328)) (Fin 50) (Fin 50) = 1"
proof -
  let ?r101 = "\<lparr>inAmount = Fin 1, outAmount = Fin 101\<rparr>"
  let ?r103 = "\<lparr>inAmount = Fin 103, outAmount = Fin 1\<rparr>"
  let ?run = "publishIfNeeded binary64 ?r101 ?r103 1000 (Inr 5) running_Main"
  have n1: "needUpdate binary64 running_Main (Fin 102) 1000 = Inr True"
    and n3: "needUpdate binary64 running_Main (Fin (201 / 2)) 1000 = Inr False"
    by (simp_all add: needUpdate_def running_Main_def double_simps)
  have q: "Fin 101 = n_div binary64 (outAmount ?r101) (inAmount ?r101)"
      "Fin 103 = n_div binary64 (inAmount ?r103) (outAmount ?r103)"
      "Fin 103 = n_div binary64 (outAmount \<lparr>inAmount = Fin 1, outAmount = Fin 103\<rparr>)
                   (inAmount \<lparr>inAmount = Fin 1, outAmount = Fin 103\<rparr>)"
      "Fin 101 = n_div binary64 (inAmount \<lparr>inAmount = Fin 101, outAmount = Fin 1\<rparr>)
                   (outAmount \<lparr>inAmount = Fin 101, outAmount = Fin 1\<rparr>)"
      "Fin 100 = n_div binary64 (outAmount \<lparr>inAmount = Fin 1, outAmount = Fin 100\<rparr>)
                   (inAmount \<lparr>inAmount = Fin 1, outAmount = Fin 100\<rparr>)"
      "Fin 160 = n_div binary64 (outAmount \<lparr>inAmount = Fin 1, outAmount = Fin 160\<rparr>)
                   (inAmount \<lparr>inAmount = Fin 1, outAmount = Fin 160\<rparr>)"
      "Fin 170 = n_div binary64 (inAmount \<lparr>inAmount = Fin 170, outAmount = Fin 1\<rparr>)
                   (outAmount \<lparr>inAmount = Fin 170, outAmount = Fin 1\<rparr>)"
      "Fin 30 = n_div binary64 (outAmount \<lparr>inAmount = Fin 1, outAmount = Fin 30\<rparr>)
                   (inAmount \<lparr>inAmount = Fin 1, outAmount = Fin 30\<rparr>)"
      "Fin 40 = n_div binary64 (inAmount \<lparr>inAmount = Fin 40, outAmount = Fin 1\<rparr>)
                   (outAmount \<lparr>inAmount = Fin 40, outAmount = Fin 1\<rparr>)"
      "PInf = n_div binary64 (inAmount \<lparr>inAmount = Fin 103, outAmount = Fin 0\<rparr>)
                   (outAmount \<lparr>inAmount = Fin 103, outAmount = Fin 0\<rparr>)"
      "Fin (7036874417766399 / 140737488355328)
         = n_div binary64
             (outAmount \<lparr>inAmount = Fin 1, outAmount = Fin (7036874417766399 / 140737488355328)\<rparr>)
             (inAmount \<lparr>inAmount = Fin 1, outAmount = Fin (7036874417766399 / 140737488355328)\<rparr>)"
      "Fin 50 = n_div binary64 (inAmount \<lparr>inAmount = Fin 50, outAmount = Fin 1\<rparr>)
                   (outAmount \<lparr>inAmount = Fin 50, outAmount = Fin 1\<rparr>)"
    by (simp_all add: double_simps)
  have p: "Fin 102 = getMarkPrice binary64 (Fin 101) (Fin 103)"
      "Fin 102 = getMarkPrice binary64 (Fin 103) (Fin 101)"
      "Fin (201 / 2) = getMarkPrice binary64 (Fin 100) (Fin 101)"
      "Fin 165 = getMarkPrice binary64 (Fin 160) (Fin 170)"
      "Fin 35 = getMarkPrice binary64 (Fin 30) (Fin 40)"
      "PInf = getMarkPrice binary64 (Fin 101) PInf"
      "Fin 50 = getMarkPrice binary64 (Fin (7036874417766399 / 140737488355328)) (Fin 50)"
    by (simp_all add: getMarkPrice_def double_simps)
  have run: "?run = (Inr (), snd ?run)"
    by (simp add: run_simps)
  note a = publish_status [OF q(1) q(2) p(1), of running_Main 1000 "Inr 5" "snd ?run"]
  note b = publish_status [OF q(3) q(4) p(2), of running_Main 70000 "Inr 5"]
  note c = publish_status [OF q(5) q(4) p(3), of running_Main 1000 "Inr 5"]
  note d = publish_status [OF q(3) q(4) p(2), of "running_Main\<lparr>allowNegativeSpread := True\<rparr>" 70000 "Inr 5"]
  note e = publish_status [OF q(6) q(7) p(4), of running_Main 70000 "Inr 5"]
  note f = publish_status [OF q(8) q(9) p(5), of running_Main 70000 "Inr 5"]
  note g = publish_status [OF q(1) q(10) p(6), of running_Main 1000 "Inr 5"]
  note h = publish_status [OF q(11) q(12) p(7), of running_Main 1000 "Inr 5"]
  have s7: "publishStatus binary64 running_Main (Fin (7036874417766399 / 140737488355328)) (Fin 50)
              (Fin 50) = 1"
    unfolding h [THEN conjunct1] by (simp add: running_Main_def double_simps)
  have s1: "publishStatus binary64 running_Main (Fin 101) (Fin 103) (Fin 102) = 1"
    unfolding a [THEN conjunct1] by (simp add: running_Main_def double_simps)
  have s2: "publishStatus binary64 running_Main (Fin 103) (Fin 101) (Fin 102) = 0"
    unfolding b [THEN conjunct1] by (simp add: running_Main_def double_simps)
  have s3: "publishStatus binary64 (running_Main\<lparr>allowNegativeSpread := True\<rparr>) (Fin 103) (Fin 101) (Fin 102) = 1"
    unfolding d [THEN conjunct1] by (simp add: running_Main_def double_simps)
  have s4: "publishStatus binary64 running_Main (Fin 160) (Fin 170) (Fin 165) = 0"
    unfolding e [THEN conjunct1] by (simp add: running_Main_def double_simps)
  have s5: "publishStatus binary64 running_Main (Fin 30) (Fin 40) (Fin 35) = 0"
    unfolding f [THEN conjunct1] by (simp add: running_Main_def double_simps)
  have s6: "publishStatus binary64 running_Main (Fin 101) PInf PInf = 0"
    unfolding g [THEN conjunct1] by (simp add: running_Main_def double_simps)
  have ok1: "fst ?run = Inr ()"
    by (subst run) simp
  from a [THEN conjunct2, THEN conjunct2, THEN conjunct1] n1 run
  have l: "lastStatus (snd ?run) = publishStatus binary64 running_Main (Fin 101) (Fin 103) (Fin 102)
      \<and> (\<exists>d h p c. (Inr 5 :: error + nat) = Inr h
            \<and> inflight (snd ?run)
                = inflight running_Main @ [\<lparr>data = d, recentBlockhash = Some h, txSigned = True\<rparr>]
            \<and> layout_decode d
                = Some (0, p, c, publishStatus binary64 running_Main (Fin 101) (Fin 103) (Fin 102)))"
    by blast
  have l1: "lastStatus (snd ?run) = 1"
    using l s1 by simp
  have l2: "\<exists>d p c. inflight (snd ?run) = [\<lparr>data = d, recentBlockhash = Some 5, txSigned = True\<rparr>]
        \<and> layout_decode d = Some (0, p, c, 1)"
    using l s1 by (auto simp: running_Main_def)
  have no: "publishIfNeeded binary64 \<lparr>inAmount = Fin 1, outAmount = Fin 100\<rparr>
        \<lparr>inAmount = Fin 101, outAmount = Fin 1\<rparr> 1000 (Inr 5) running_Main
       = (Inr (), running_Main\<lparr>logger := [DebugQuote (Fin 100) (Fin 101) (Fin (201 / 2))]\<rparr>)"
    using c [THEN conjunct2, THEN conjunct2, THEN conjunct2] n3 by (simp add: running_Main_def)
  have inf: "publishIfNeeded binary64 ?r101 \<lparr>inAmount = Fin 103, outAmount = Fin 0\<rparr> 1000 (Inr 5)
               running_Main
       = (Inl RangeError,
          running_Main\<lparr>logger := [DebugQuote (Fin 101) PInf PInf, DebugUpdating PInf 0 1000]\<rparr>)"
    by (simp add: run_simps)
  from n1 s1 ok1 l1 l2 s2 s3 s4 s5 n3 no s6 inf p(7) [symmetric] s7 show ?thesis by blast
qed

text \<open>
  C3 (as stated in the specification, refuted): the inactivity rule would fire on every
  pass on which its condition holds, also when no observation was obtained. When the
  observation itself fails (the route search or the Marinade request rejects), the error
  leaves the pass before the rule is reached: the condition holds, nothing is published
  and the status stays valid.
\<close>

theorem inactivity_rule_counterexample:
  "inactiveDuration running_Main \<noteq> 0
   \<and> 200000 > lastUpdate running_Main + inactiveDuration running_Main
   \<and> lastStatus running_Main = 1
   \<and> tick binary64 (failed_tick 200000) running_Main = (Inl NetworkError, running_Main)
   \<and> tick_mSOL binary64 (mSOL_tick 200000 (Inl NetworkError)) running_Main
       = (Inl NetworkError, running_Main)"
  by (simp add: running_Main_def failed_tick_def mSOL_tick_def tick_def observe_def
      tick_mSOL_def observe_mSOL_def)

text \<open>
  C3 (amended): on every pass whose first half returns without an error (with a publish,
  without one, or without any observation: no route, a falsy mSOL price), the inactivity
  rule fires iff \<open>inactiveDuration\<close> is not \<open>0\<close>, \<open>now > lastUpdate + inactiveDuration\<close>
  and \<open>lastStatus\<close> is not \<open>0\<close>, read from the fields as the first half left them; the
  status is \<open>0\<close> or \<open>1\<close> throughout, so a status that is not \<open>0\<close> is valid. When it
  fires, \<open>updatePrice\<close> is called with \<open>lastPrice\<close> and the status \<open>0\<close>, which leaves
  \<open>lastPrice\<close> as it was, \<open>lastStatus = 0\<close> and \<open>lastUpdate = now\<close>. A pass whose first
  half throws ends with that error, and the rule is not evaluated.
\<close>

theorem inactivity_rule:
  "(observe R t m = (Inr (), m1) \<longrightarrow>
      tick R t m =
        (if inactiveDuration m1 \<noteq> 0 \<and> tick_now t > lastUpdate m1 + inactiveDuration m1
            \<and> lastStatus m1 \<noteq> 0
         then updatePrice R Jupiter (lastPrice m1) 0 (tick_now t) (blockhash_disable t)
                (m1\<lparr>logger := logger m1 @ [WarnDisabling (inactiveDuration m1)]\<rparr>)
         else (Inr (), m1))
      \<and> (lastStatus m \<in> {0, 1} \<longrightarrow> lastStatus m1 \<in> {0, 1}))
   \<and> (observe_mSOL R t' m = (Inr (), m1') \<longrightarrow>
      tick_mSOL R t' m =
        (if inactiveDuration m1' \<noteq> 0 \<and> mtick_now t' > lastUpdate m1' + inactiveDuration m1'
            \<and> lastStatus m1' \<noteq> 0
         then updatePrice R Marinade (lastPrice m1') 0 (mtick_now t') (mblockhash_disable t')
                (m1'\<lparr>logger := logger m1' @ [WarnDisabling (inactiveDuration m1')]\<rparr>)
         else (Inr (), m1'))
      \<and> (lastStatus m \<in> {0, 1} \<longrightarrow> lastStatus m1' \<in> {0, 1}))
   \<and> (routeInfo0 t = Inr None \<and> routeInfo1 t = Inr r1 \<or> routeInfo0 t = Inr r0 \<and> routeInfo1 t = Inr None
        \<longrightarrow> observe R t m = (Inr (), m))
   \<and> (mSolPrice t' = Inr p \<and> \<not> n_truthy R p \<longrightarrow> observe_mSOL R t' m = (Inr (), m))
   \<and> (updatePrice R v (lastPrice m2) 0 now bh (m2\<lparr>logger := l\<rparr>) = (Inr (), m3) \<longrightarrow>
        lastPrice m3 = lastPrice m2 \<and> lastStatus m3 = 0 \<and> lastUpdate m3 = now)
   \<and> (observe R t m = (Inl e, m1) \<longrightarrow> tick R t m = (Inl e, m1))
   \<and> (observe_mSOL R t' m = (Inl e, m1') \<longrightarrow> tick_mSOL R t' m = (Inl e, m1'))"
proof -
  have j: "observe R t m = (Inr (), m1) \<longrightarrow>
      tick R t m =
        (if inactiveDuration m1 \<noteq> 0 \<and> tick_now t > lastUpdate m1 + inactiveDuration m1
            \<and> lastStatus m1 \<noteq> 0
         then updatePrice R Jupiter (lastPrice m1) 0 (tick_now t) (blockhash_disable t)
                (m1\<lparr>logger := logger m1 @ [WarnDisabling (inactiveDuration m1)]\<rparr>)
         else (Inr (), m1))
      \<and> (lastStatus m \<in> {0, 1} \<longrightarrow> lastStatus m1 \<in> {0, 1})"
  proof
    assume o: "observe R t m = (Inr (), m1)"
    have "lastStatus m \<in> {0, 1} \<longrightarrow> lastStatus m1 \<in> {0, 1}"
      using observe_status_range [of m R t] o by simp
    then show "tick R t m =
        (if inactiveDuration m1 \<noteq> 0 \<and> tick_now t > lastUpdate m1 + inactiveDuration m1
            \<and> lastStatus m1 \<noteq> 0
         then updatePrice R Jupiter (lastPrice m1) 0 (tick_now t) (blockhash_disable t)
                (m1\<lparr>logger := logger m1 @ [WarnDisabling (inactiveDuration m1)]\<rparr>)
         else (Inr (), m1))
      \<and> (lastStatus m \<in> {0, 1} \<longrightarrow> lastStatus m1 \<in> {0, 1})"
      by (simp add: tick_def o disableIfInactive_def inactive_def)
  qed
  have ms: "observe_mSOL R t' m = (Inr (), m1') \<longrightarrow>
      tick_mSOL R t' m =
        (if inactiveDuration m1' \<noteq> 0 \<and> mtick_now t' > lastUpdate m1' + inactiveDuration m1'
            \<and> lastStatus m1' \<noteq> 0
         then updatePrice R Marinade (lastPrice m1') 0 (mtick_now t') (mblockhash_disable t')
                (m1'\<lparr>logger := logger m1' @ [WarnDisabling (inactiveDuration m1')]\<rparr>)
         else (Inr (), m1'))
      \<and> (lastStatus m \<in> {0, 1} \<longrightarrow> lastStatus m1' \<in> {0, 1})"
  proof
    assume o: "observe_mSOL R t' m = (Inr (), m1')"
    have "lastStatus m \<in> {0, 1} \<longrightarrow> lastStatus m1' \<in> {0, 1}"
      using observe_mSOL_status_range [of m R t'] o by simp
    then show "tick_mSOL R t' m =
        (if inactiveDuration m1' \<noteq> 0 \<and> mtick_now t' > lastUpdate m1' + inactiveDuration m1'
            \<and> lastStatus m1' \<noteq> 0
         then updatePrice R Marinade (lastPrice m1') 0 (mtick_now t') (mblockhash_disable t')
                (m1'\<lparr>logger := logger m1' @ [WarnDisabling (inactiveDuration m1')]\<rparr>)
         else (Inr (), m1'))
      \<and> (lastStatus m \<in> {0, 1} \<longrightarrow> lastStatus m1' \<in> {0, 1})"
      by (simp add: tick_mSOL_def o disableIfInactive_def inactive_def)
  qed
  have none: "routeInfo0 t = Inr None \<and> routeInfo1 t = Inr r1 \<or> routeInfo0 t = Inr r0 \<and> routeInfo1 t = Inr None
        \<longrightarrow> observe R t m = (Inr (), m)"
    by (auto simp: observe_def split: option.split)
  have none': "mSolPrice t' = Inr p \<and> \<not> n_truthy R p \<longrightarrow> observe_mSOL R t' m = (Inr (), m)"
    by (simp add: observe_mSOL_def)
  have eff: "updatePrice R v (lastPrice m2) 0 now bh (m2\<lparr>logger := l\<rparr>) = (Inr (), m3) \<longrightarrow>
        lastPrice m3 = lastPrice m2 \<and> lastStatus m3 = 0 \<and> lastUpdate m3 = now"
    using updatePrice_ok_fields [of R v "lastPrice m2" 0 now bh "m2\<lparr>logger := l\<rparr>" "()" m3] by simp
  have f: "observe R t m = (Inl e, m1) \<longrightarrow> tick R t m = (Inl e, m1)"
    by (simp add: tick_def)
  have f': "observe_mSOL R t' m = (Inl e, m1') \<longrightarrow> tick_mSOL R t' m = (Inl e, m1')"
    by (simp add: tick_mSOL_def)
  from j ms none none' eff f f' show ?thesis by (intro conjI)
qed

text \<open>
  A running publisher, last update at time 0, \<open>inactiveDuration\<close> 120 s. A pass without
  routes (or with a falsy mSOL price) at 200 s publishes the last price 100 with status
  \<open>0\<close>; at 100 s, or with \<open>inactiveDuration = 0\<close>, it does nothing. A pass whose search
  fails ends with the error.
\<close>

theorem inactivity_rule_witness:
  "observe binary64 (quiet_tick 200000) running_Main = (Inr (), running_Main)
   \<and> observe_mSOL binary64 (mSOL_tick 200000 (Inr (Fin 0))) running_Main = (Inr (), running_Main)
   \<and> tick binary64 (quiet_tick 200000) running_Main
       = updatePrice binary64 Jupiter (Fin 100) 0 200000 (Inr 2)
           (running_Main\<lparr>logger := [WarnDisabling 120000]\<rparr>)
   \<and> tick_mSOL binary64 (mSOL_tick 200000 (Inr (Fin 0))) running_Main
       = updatePrice binary64 Marinade (Fin 100) 0 200000 (Inr 2)
           (running_Main\<lparr>logger := [WarnDisabling 120000]\<rparr>)
   \<and> fst (tick binary64 (quiet_tick 200000) running_Main) = Inr ()
   \<and> lastPrice (snd (tick binary64 (quiet_tick 200000) running_Main)) = Fin 100
   \<and> lastStatus (snd (tick binary64 (quiet_tick 200000) running_Main)) = 0
   \<and> lastUpdate (snd (tick binary64 (quiet_tick 200000) running_Main)) = 200000
   \<and> tick binary64 (quiet_tick 100000) running_Main = (Inr (), running_Main)
   \<and> tick binary64 (quiet_tick 200000) (running_Main\<lparr>inactiveDuration := 0\<rparr>)
       = (Inr (), running_Main\<lparr>inactiveDuration := 0\<rparr>)
   \<and> observe binary64 (failed_tick 200000) running_Main = (Inl NetworkError, running_Main)
   \<and> tick binary64 (failed_tick 200000) running_Main = (Inl NetworkError, running_Main)
   \<and> observe_mSOL binary64 (mSOL_tick 200000 (Inl NetworkError)) running_Main
       = (Inl NetworkError, running_Main)
   \<and> tick_mSOL binary64 (mSOL_tick 200000 (Inl NetworkError)) running_Main
       = (Inl NetworkError, running_Main)
   \<and> lastStatus running_Main \<in> {0, 1}"
proof -
  let ?warned = "running_Main\<lparr>logger := [WarnDisabling 120000]\<rparr>"
  have o: "observe binary64 (quiet_tick 200000) running_Main = (Inr (), running_Main)"
    and o1: "observe binary64 (quiet_tick 100000) running_Main = (Inr (), running_Main)"
    and o0: "observe binary64 (quiet_tick 200000) (running_Main\<lparr>inactiveDuration := 0\<rparr>)
               = (Inr (), running_Main\<lparr>inactiveDuration := 0\<rparr>)"
    and om: "observe_mSOL binary64 (mSOL_tick 200000 (Inr (Fin 0))) running_Main
               = (Inr (), running_Main)"
    and f: "observe binary64 (failed_tick 200000) running_Main = (Inl NetworkError, running_Main)"
    and fm: "observe_mSOL binary64 (mSOL_tick 200000 (Inl NetworkError)) running_Main
               = (Inl NetworkError, running_Main)"
    by (simp_all add: quiet_tick_def mSOL_tick_def failed_tick_def observe_def observe_mSOL_def
        double_simps)
  have st: "lastStatus running_Main \<in> {0, 1}"
    by (simp add: running_Main_def)
  have fired: "updatePrice binary64 Jupiter (Fin 100) 0 200000 (Inr 2) ?warned
       = (Inr (), snd (updatePrice binary64 Jupiter (Fin 100) 0 200000 (Inr 2) ?warned))"
    by (simp add: run_simps)
  note r = inactivity_rule [where R = binary64 and t = "quiet_tick 200000" and m = running_Main
      and ?m1.0 = running_Main and t' = "mSOL_tick 200000 (Inr (Fin 0))" and m1' = running_Main
      and v = Jupiter and ?m2.0 = running_Main and now = 200000 and bh = "Inr 2"
      and l = "[WarnDisabling 120000]"
      and ?m3.0 = "snd (updatePrice binary64 Jupiter (Fin 100) 0 200000 (Inr 2) ?warned)"]
  note r1 = inactivity_rule [where R = binary64 and t = "quiet_tick 100000" and m = running_Main
      and ?m1.0 = running_Main]
  note r0 = inactivity_rule [where R = binary64 and t = "quiet_tick 200000"
      and m = "running_Main\<lparr>inactiveDuration := 0\<rparr>"
      and ?m1.0 = "running_Main\<lparr>inactiveDuration := 0\<rparr>"]
  note rf = inactivity_rule [where R = binary64 and t = "failed_tick 200000" and m = running_Main
      and t' = "mSOL_tick 200000 (Inl NetworkError)" and e = NetworkError]
  have t: "tick binary64 (quiet_tick 200000) running_Main
       = updatePrice binary64 Jupiter (Fin 100) 0 200000 (Inr 2) ?warned"
    using r o by (simp add: running_Main_def quiet_tick_def)
  have tm: "tick_mSOL binary64 (mSOL_tick 200000 (Inr (Fin 0))) running_Main
       = updatePrice binary64 Marinade (Fin 100) 0 200000 (Inr 2) ?warned"
    using r om by (simp add: running_Main_def mSOL_tick_def)
  have eff: "lastPrice (snd (tick binary64 (quiet_tick 200000) running_Main)) = Fin 100
       \<and> lastStatus (snd (tick binary64 (quiet_tick 200000) running_Main)) = 0
       \<and> lastUpdate (snd (tick binary64 (quiet_tick 200000) running_Main)) = 200000"
    using r fired unfolding t by (simp add: running_Main_def)
  have t1: "tick binary64 (quiet_tick 100000) running_Main = (Inr (), running_Main)"
    using r1 o1 by (simp add: running_Main_def quiet_tick_def)
  have t0: "tick binary64 (quiet_tick 200000) (running_Main\<lparr>inactiveDuration := 0\<rparr>)
       = (Inr (), running_Main\<lparr>inactiveDuration := 0\<rparr>)"
    using r0 o0 by (simp add: running_Main_def quiet_tick_def)
  have tf: "tick binary64 (failed_tick 200000) running_Main = (Inl NetworkError, running_Main)"
    using rf f by simp
  have tfm: "tick_mSOL binary64 (mSOL_tick 200000 (Inl NetworkError)) running_Main
               = (Inl NetworkError, running_Main)"
    using rf fm by simp
  have tfst: "fst (tick binary64 (quiet_tick 200000) running_Main) = Inr ()"
    unfolding t by (subst fired) simp
  from o om t tm tfst eff t1 t0 f tf fm tfm st show ?thesis by blast
qed

text \<open>
  C10: a call of \<open>updatePrice\<close> that returns normally leaves \<open>lastPrice = price\<close>,
  \<open>lastStatus = status\<close> and \<open>lastUpdate = now\<close>. The delivery task it started does not
  change these fields when it settles, whatever the outcome (a confirmation, a timeout or
  a failed broadcast). A call that faults, as it does when the blockhash request fails,
  leaves the three fields unchanged and starts no delivery.
\<close>

theorem updatePrice_frame:
  "(updatePrice R v price status now bh m = (Inr (), m') \<longrightarrow>
      lastPrice m' = price \<and> lastStatus m' = status \<and> lastUpdate m' = now)
   \<and> lastPrice (delivery_settled outcome m) = lastPrice m
   \<and> lastStatus (delivery_settled outcome m) = lastStatus m
   \<and> lastUpdate (delivery_settled outcome m) = lastUpdate m
   \<and> (updatePrice R v price status now bh m = (Inl e, m') \<longrightarrow>
      lastPrice m' = lastPrice m \<and> lastStatus m' = lastStatus m \<and> lastUpdate m' = lastUpdate m
      \<and> inflight m' = inflight m)
   \<and> (bh = Inl e \<longrightarrow> (\<exists>e'. fst (updatePrice R v price status now bh m) = Inl e'))"
proof -
  have ok: "updatePrice R v price status now bh m = (Inr (), m') \<longrightarrow>
      lastPrice m' = price \<and> lastStatus m' = status \<and> lastUpdate m' = now"
    using updatePrice_ok_fields [of R v price status now bh m "()" m'] by simp
  have settled: "lastPrice (delivery_settled outcome m) = lastPrice m
      \<and> lastStatus (delivery_settled outcome m) = lastStatus m
      \<and> lastUpdate (delivery_settled outcome m) = lastUpdate m"
    by (cases outcome) (simp_all add: delivery_settled_def)
  have fault: "updatePrice R v price status now bh m = (Inl e, m') \<longrightarrow>
      lastPrice m' = lastPrice m \<and> lastStatus m' = lastStatus m \<and> lastUpdate m' = lastUpdate m
      \<and> inflight m' = inflight m"
    using updatePrice_fault_fields [of R v price status now bh m e m'] by simp
  have bhf: "bh = Inl e \<longrightarrow> (\<exists>e'. fst (updatePrice R v price status now bh m) = Inl e')"
    by (simp add: updatePrice_def Let_def split: sum.split)
  from ok settled fault bhf show ?thesis by blast
qed

text \<open>
  A publish of 102 with a blockhash sets the three fields, and the settled delivery leaves
  them; the same publish without a blockhash leaves the fields of the last publish.
\<close>

theorem updatePrice_frame_witness:
  "updatePrice binary64 Jupiter (Fin 102) 1 1000 (Inr 5) running_Main
     = (Inr (), snd (updatePrice binary64 Jupiter (Fin 102) 1 1000 (Inr 5) running_Main))
   \<and> lastPrice (snd (updatePrice binary64 Jupiter (Fin 102) 1 1000 (Inr 5) running_Main)) = Fin 102
   \<and> lastStatus (snd (updatePrice binary64 Jupiter (Fin 102) 1 1000 (Inr 5) running_Main)) = 1
   \<and> lastUpdate (snd (updatePrice binary64 Jupiter (Fin 102) 1 1000 (Inr 5) running_Main)) = 1000
   \<and> lastPrice (delivery_settled (Inr \<lparr>txid = 7, transactionResponse = None\<rparr>)
        (snd (updatePrice binary64 Jupiter (Fin 102) 1 1000 (Inr 5) running_Main))) = Fin 102
   \<and> updatePrice binary64 Marinade (Fin 102) 1 1000 (Inl NetworkError) running_Main
     = (Inl NetworkError,
        snd (updatePrice binary64 Marinade (Fin 102) 1 1000 (Inl NetworkError) running_Main))
   \<and> lastPrice (snd (updatePrice binary64 Marinade (Fin 102) 1 1000 (Inl NetworkError) running_Main))
       = Fin 100
   \<and> lastStatus (snd (updatePrice binary64 Marinade (Fin 102) 1 1000 (Inl NetworkError) running_Main)) = 1
   \<and> lastUpdate (snd (updatePrice binary64 Marinade (Fin 102) 1 1000 (Inl NetworkError) running_Main)) = 0
   \<and> inflight (snd (updatePrice binary64 Marinade (Fin 102) 1 1000 (Inl NetworkError) running_Main)) = []"
proof -
  let ?ok = "updatePrice binary64 Jupiter (Fin 102) 1 1000 (Inr 5) running_Main"
  let ?bad = "updatePrice binary64 Marinade (Fin 102) 1 1000 (Inl NetworkError) running_Main"
  have ok: "?ok = (Inr (), snd ?ok)" and bad: "?bad = (Inl NetworkError, snd ?bad)"
    by (simp_all add: run_simps)
  note a = updatePrice_frame [where R = binary64 and v = Jupiter and price = "Fin 102" and status = 1
      and now = 1000 and bh = "Inr 5" and m = running_Main and m' = "snd ?ok"]
  note s = updatePrice_frame [where m = "snd ?ok"
      and outcome = "Inr \<lparr>txid = 7, transactionResponse = None\<rparr>"]
  note b = updatePrice_frame [where R = binary64 and v = Marinade and price = "Fin 102" and status = 1
      and now = 1000 and bh = "Inl NetworkError" and m = running_Main and m' = "snd ?bad"
      and e = NetworkError]
  have a': "lastPrice (snd ?ok) = Fin 102 \<and> lastStatus (snd ?ok) = 1 \<and> lastUpdate (snd ?ok) = 1000"
    using a ok by blast
  have s': "lastPrice (delivery_settled (Inr \<lparr>txid = 7, transactionResponse = None\<rparr>) (snd ?ok))
              = Fin 102"
    using s a' by simp
  have b': "lastPrice (snd ?bad) = Fin 100 \<and> lastStatus (snd ?bad) = 1 \<and> lastUpdate (snd ?bad) = 0
      \<and> inflight (snd ?bad) = []"
    using b bad by (simp add: running_Main_def)
  from ok a' s' bad b' show ?thesis by blast
qed

text \<open>
  C9 at the input where the code departs from it: with \<open>inactiveDuration\<close> equal to
  \<open>updateInterval\<close> (nonzero, and not longer), \<open>main\<close> of either script logs no
  configuration error, enters its loop and publishes.
\<close>

theorem main_equal_durations_starts:
  "cfg_inactiveDuration equal_durations \<noteq> 0
   \<and> \<not> cfg_inactiveDuration equal_durations > cfg_updateInterval equal_durations
   \<and> fst (main binary64 (Some equal_durations) (Inr (True, True))
            [quoted_tick 1700000000000 (Fin 101) (Fin 103)] new_Main) = Inr ()
   \<and> logger (snd (main binary64 (Some equal_durations) (Inr (True, True))
            [quoted_tick 1700000000000 (Fin 101) (Fin 103)] new_Main))
       = [InfoStarting, DebugQuote (Fin 101) (Fin 103) (Fin 102), DebugUpdating (Fin 102) 1 1700000000000]
   \<and> length (inflight (snd (main binary64 (Some equal_durations) (Inr (True, True))
        [quoted_tick 1700000000000 (Fin 101) (Fin 103)] new_Main))) = 1
   \<and> logger (snd (main_mSOL binary64 (Some equal_durations)
            [mSOL_tick 1700000000000 (Inr (Fin 102))] new_Main))
       = [InfoStarting, DebugUpdating (Fin 102) 1 1700000000000]
   \<and> length (inflight (snd (main_mSOL binary64 (Some equal_durations)
        [mSOL_tick 1700000000000 (Inr (Fin 102))] new_Main))) = 1"
  by (simp add: main_def main_mSOL_def inappropriateConfig_def equal_durations_def run_simps)

text \<open>
  In particular no configuration error is logged, and one transaction is in flight.
\<close>

theorem main_equal_durations_starts_witness:
  "ErrInappropriateConfig \<notin> set (logger (snd (main binary64 (Some equal_durations) (Inr (True, True))
        [quoted_tick 1700000000000 (Fin 101) (Fin 103)] new_Main)))
   \<and> inflight (snd (main binary64 (Some equal_durations) (Inr (True, True))
        [quoted_tick 1700000000000 (Fin 101) (Fin 103)] new_Main)) \<noteq> []
   \<and> ErrInappropriateConfig \<notin> set (logger (snd (main_mSOL binary64 (Some equal_durations)
        [mSOL_tick 1700000000000 (Inr (Fin 102))] new_Main)))"
proof -
  note t = main_equal_durations_starts
  have a: "ErrInappropriateConfig \<notin> set (logger (snd (main binary64 (Some equal_durations)
        (Inr (True, True)) [quoted_tick 1700000000000 (Fin 101) (Fin 103)] new_Main)))"
    using t by simp
  have b: "inflight (snd (main binary64 (Some equal_durations) (Inr (True, True))
        [quoted_tick 1700000000000 (Fin 101) (Fin 103)] new_Main)) \<noteq> []"
    using t by (metis length_0_conv zero_neq_one)
  have c: "ErrInappropriateConfig \<notin> set (logger (snd (main_mSOL binary64 (Some equal_durations)
        [mSOL_tick 1700000000000 (Inr (Fin 102))] new_Main)))"
    using t by simp
  from a b c show ?thesis by blast
qed

section \<open>Properties of the delivery protocol\<close>

text \<open>
  The bound on the number of iterations does not change a result: once the loop has
  returned within some bound, it returns the same under every larger one.
\<close>

lemma waiter_loop_more_fuel:
  "waiter_loop fuel conn a tid start ls rt w = Some res \<Longrightarrow>
     waiter_loop (fuel + k) conn a tid start ls rt w = Some res"
proof (induction fuel arbitrary: ls rt w)
  case 0
  then show ?case by simp
next
  case (Suc fuel)
  show ?case
  proof (cases "clock w - start < timeout a")
    case False
    with Suc.prems show ?thesis by simp
  next
    case True
    obtain out w1 where rb: "rebroadcast conn a ls rt w = (out, w1)"
      by (cases "rebroadcast conn a ls rt w")
    show ?thesis
    proof (cases out)
      case (Inl e)
      with Suc.prems True rb show ?thesis by simp
    next
      case (Inr p)
      obtain ls1 rt1 where p: "p = (ls1, rt1)" by (cases p)
      obtain el resp where race: "race_any (getTransaction conn (queries w1)) = (el, resp)"
        by (cases "race_any (getTransaction conn (queries w1))")
      show ?thesis
      proof (cases resp)
        case (Some r)
        with Suc.prems True rb Inr p race show ?thesis by (simp add: Let_def)
      next
        case None
        with Suc.prems True rb Inr p race
        have "waiter_loop fuel conn a tid start ls1 rt1
                (sleep (pollInterval a) (w1\<lparr>clock := clock w1 + el, queries := Suc (queries w1)\<rparr>))
              = Some res"
          by (simp add: Let_def)
        from Suc.IH [OF this] True rb Inr p race None show ?thesis
          by (simp add: Let_def)
      qed
    qed
  qed
qed

lemma deliver_more_fuel:
  "transactionSenderAndConfirmationWaiter fuel conn a w = Some res \<Longrightarrow>
     transactionSenderAndConfirmationWaiter (fuel + k) conn a w = Some res"
  by (cases "sendRawTransaction conn (sends w)")
    (simp_all add: transactionSenderAndConfirmationWaiter_def Let_def waiter_loop_more_fuel)

lemma race_any_bounds: "0 \<le> fst (race_any q) \<and> fst (race_any q) \<le> 1500"
  by (cases q) simp_all

lemma race_any_never_confirmed:
  "(\<forall>lat r. q \<noteq> QueryConfirmed lat r) \<Longrightarrow> snd (race_any q) = None"
  by (cases q) simp_all

lemma race_any_absorb:
  "race_any (case q of QueryFail lat \<Rightarrow> QueryHang | q' \<Rightarrow> q') = race_any q"
  by (cases q) simp_all

lemma absorb_sends [simp]: "sendRawTransaction (absorb_failures conn) = sendRawTransaction conn"
  by (simp add: absorb_failures_def)

lemma absorb_race [simp]:
  "race_any (getTransaction (absorb_failures conn) k) = race_any (getTransaction conn k)"
  by (simp add: absorb_failures_def race_any_absorb)

lemma rebroadcast_absorb:
  "rebroadcast (absorb_failures conn) a ls rt w = rebroadcast conn a ls rt w"
  by (simp add: rebroadcast_def Let_def cong: if_cong)

lemma waiter_loop_absorb:
  "waiter_loop fuel (absorb_failures conn) a tid start ls rt w
     = waiter_loop fuel conn a tid start ls rt w"
proof (induction fuel arbitrary: ls rt w)
  case 0
  show ?case by simp
next
  case (Suc fuel)
  show ?case
    by (simp add: rebroadcast_absorb Suc Let_def split: prod.split sum.split option.split)
qed

lemma rebroadcast_ok:
  assumes "\<forall>k. \<exists>lat tid. sendRawTransaction conn k = SendOk lat tid \<and> int lat \<le> L"
  shows "\<exists>ls1 rt1 w1. rebroadcast conn a ls rt w = (Inr (ls1, rt1), w1)
           \<and> clock w \<le> clock w1 \<and> clock w1 \<le> clock w + L \<and> queries w1 = queries w
           \<and> sends w1 + nat (sendRetries a - rt1) \<le> sends w + nat (sendRetries a - rt)"
proof (cases "rt < sendRetries a \<and> clock w - ls > sendInterval a")
  case True
  from assms obtain lat tid where s: "sendRawTransaction conn (sends w) = SendOk lat tid" "int lat \<le> L"
    by blast
  from True s show ?thesis
    by (simp add: rebroadcast_def Let_def) linarith
next
  case False
  from assms obtain lat tid where "sendRawTransaction conn 0 = SendOk lat tid" "int lat \<le> L"
    by blast
  then have "0 \<le> L" by linarith
  with False show ?thesis
    by (auto simp: rebroadcast_def Let_def)
qed

lemma waiter_loop_never_confirmed:
  assumes sends: "\<forall>k. \<exists>lat tid. sendRawTransaction conn k = SendOk lat tid \<and> int lat \<le> L"
    and never: "\<forall>k lat r. getTransaction conn k \<noteq> QueryConfirmed lat r"
    and poll: "0 < pollInterval a"
  shows "nat (timeout a - (clock w - start)) < fuel \<Longrightarrow>
     \<exists>w'. waiter_loop fuel conn a tid start ls rt w
             = Some (Inr \<lparr>txid = tid, transactionResponse = None\<rparr>, w')
        \<and> timeout a \<le> clock w' - start
        \<and> (clock w' = clock w \<or> clock w' - start < timeout a + L + 1500 + pollInterval a)
        \<and> sends w' \<le> sends w + nat (sendRetries a - rt)"
proof (induction fuel arbitrary: ls rt w)
  case 0
  then show ?case by simp
next
  case (Suc fuel)
  show ?case
  proof (cases "clock w - start < timeout a")
    case False
    then show ?thesis by simp
  next
    case True
    from rebroadcast_ok [OF sends, of a ls rt w]
    obtain ls1 rt1 w1 where rb: "rebroadcast conn a ls rt w = (Inr (ls1, rt1), w1)"
      and c1: "clock w \<le> clock w1" "clock w1 \<le> clock w + L" and q1: "queries w1 = queries w"
      and s1: "sends w1 + nat (sendRetries a - rt1) \<le> sends w + nat (sendRetries a - rt)"
      by blast
    obtain el resp where race: "race_any (getTransaction conn (queries w1)) = (el, resp)"
      by (cases "race_any (getTransaction conn (queries w1))")
    have resp: "resp = None"
      using race_any_never_confirmed [of "getTransaction conn (queries w1)"] never race by simp
    have el: "0 \<le> el" "el \<le> 1500"
      using race_any_bounds [of "getTransaction conn (queries w1)"] race by simp_all
    define w3 where "w3 = sleep (pollInterval a) (w1\<lparr>clock := clock w1 + el, queries := Suc (queries w1)\<rparr>)"
    have c3: "clock w3 = clock w1 + el + pollInterval a" and s3: "sends w3 = sends w1"
      by (simp_all add: w3_def sleep_def)
    have step: "waiter_loop (Suc fuel) conn a tid start ls rt w
                  = waiter_loop fuel conn a tid start ls1 rt1 w3"
      using True rb race resp by (simp add: w3_def Let_def)
    have "nat (timeout a - (clock w3 - start)) < fuel"
      using Suc.prems True c1 c3 el poll by linarith
    from Suc.IH [OF this, of ls1 rt1]
    obtain w' where r: "waiter_loop fuel conn a tid start ls1 rt1 w3
             = Some (Inr \<lparr>txid = tid, transactionResponse = None\<rparr>, w')"
      and t: "timeout a \<le> clock w' - start"
      and u: "clock w' = clock w3 \<or> clock w' - start < timeout a + L + 1500 + pollInterval a"
      and n: "sends w' \<le> sends w3 + nat (sendRetries a - rt1)"
      by blast
    have u': "clock w' - start < timeout a + L + 1500 + pollInterval a"
      using u True c1 c3 el by linarith
    have n': "sends w' \<le> sends w + nat (sendRetries a - rt)"
      using n s3 s1 by linarith
    from r t u' n' show ?thesis unfolding step by blast
  qed
qed

text \<open>
  C2 (as stated in the specification, refuted): against a channel that never confirms, the
  protocol would return after exactly the configured deadline. With the default
  parameters and status queries that answer \<open>null\<close> after 1 ms, an iteration takes
  1001 ms and the loop returns 120120 ms after the first broadcast, not 120000. With a
  deadline of 2500 ms and immediate answers it returns after 3000 ms.
\<close>

theorem deliver_exact_deadline_counterexample:
  "transactionSenderAndConfirmationWaiter 200 (steady_channel (QueryNull 1)) default_args net0
     = Some (Inr \<lparr>txid = 7, transactionResponse = None\<rparr>,
             \<lparr>clock = 120120, sends = 24, queries = 120\<rparr>)
   \<and> timeout default_args = 120000
   \<and> transactionSenderAndConfirmationWaiter 10 (steady_channel (QueryNull 0))
        (default_args\<lparr>timeout := 2500\<rparr>) net0
     = Some (Inr \<lparr>txid = 7, transactionResponse = None\<rparr>, \<lparr>clock = 3000, sends = 1, queries = 3\<rparr>)"
proof -
  have a: "transactionSenderAndConfirmationWaiter 200 (steady_channel (QueryNull 1)) default_args net0
     = Some (Inr \<lparr>txid = 7, transactionResponse = None\<rparr>,
             \<lparr>clock = 120120, sends = 24, queries = 120\<rparr>)"
    by code_simp
  have b: "timeout default_args = 120000"
    by (simp add: default_args_def TX_DURATION_def)
  have c: "transactionSenderAndConfirmationWaiter 10 (steady_channel (QueryNull 0))
        (default_args\<lparr>timeout := 2500\<rparr>) net0
     = Some (Inr \<lparr>txid = 7, transactionResponse = None\<rparr>, \<lparr>clock = 3000, sends = 1, queries = 3\<rparr>)"
    by code_simp
  from a b c show ?thesis by blast
qed

text \<open>
  C2 (amended): against a channel that never reports a confirmation and accepts every
  broadcast (within \<open>L\<close> ms), with a positive \<open>pollInterval\<close>, the protocol returns,
  within \<open>timeout + 1\<close> iterations, the id of the first broadcast and no response
  (\<open>confirmed = false\<close>). It returns at the first test of the loop condition at which
  the time since the first broadcast has reached the deadline: not before the deadline,
  and less than one iteration (\<open>L + 1500 + pollInterval\<close>) after it. It has then issued
  at most \<open>sendRetries + 1\<close> broadcasts (one, if \<open>sendRetries\<close> is negative).
\<close>

theorem deliver_never_confirmed:
  assumes "\<forall>k. \<exists>lat tid. sendRawTransaction conn k = SendOk lat tid \<and> int lat \<le> L"
    and "\<forall>k lat r. getTransaction conn k \<noteq> QueryConfirmed lat r"
    and "0 < pollInterval a"
    and "nat (timeout a) < fuel"
  shows "\<exists>lat tid w'.
           sendRawTransaction conn (sends w) = SendOk lat tid
         \<and> transactionSenderAndConfirmationWaiter fuel conn a w
             = Some (Inr \<lparr>txid = tid, transactionResponse = None\<rparr>, w')
         \<and> timeout a \<le> clock w' - (clock w + int lat)
         \<and> (clock w' - (clock w + int lat) = 0
              \<or> clock w' - (clock w + int lat) < timeout a + L + 1500 + pollInterval a)
         \<and> sends w' \<le> sends w + 1 + nat (sendRetries a)"
proof -
  from assms(1) obtain lat tid where s: "sendRawTransaction conn (sends w) = SendOk lat tid"
    by blast
  define w1 where "w1 = w\<lparr>clock := clock w + int lat, sends := Suc (sends w)\<rparr>"
  have c1: "clock w1 = clock w + int lat" and s1: "sends w1 = Suc (sends w)"
    by (simp_all add: w1_def)
  have run: "transactionSenderAndConfirmationWaiter fuel conn a w
               = waiter_loop fuel conn a tid (clock w1) (clock w1) 0 w1"
    by (simp add: transactionSenderAndConfirmationWaiter_def s w1_def Let_def)
  have "nat (timeout a - (clock w1 - clock w1)) < fuel"
    using assms(4) by simp
  from waiter_loop_never_confirmed [OF assms(1,2,3) this, of tid "clock w1" 0]
  obtain w' where r: "waiter_loop fuel conn a tid (clock w1) (clock w1) 0 w1
             = Some (Inr \<lparr>txid = tid, transactionResponse = None\<rparr>, w')"
      and t: "timeout a \<le> clock w' - clock w1"
      and u: "clock w' = clock w1 \<or> clock w' - clock w1 < timeout a + L + 1500 + pollInterval a"
      and n: "sends w' \<le> sends w1 + nat (sendRetries a - 0)"
    by blast
  have "sends w' \<le> sends w + 1 + nat (sendRetries a)"
    using n s1 by simp
  moreover have "clock w' - (clock w + int lat) = 0
              \<or> clock w' - (clock w + int lat) < timeout a + L + 1500 + pollInterval a"
    using u c1 by auto
  ultimately show ?thesis
    using s r t unfolding run c1 by blast
qed


text \<open>
  The default parameters against a channel whose every status query is rejected: no
  response, between 120000 and 122500 ms after the first broadcast, at most 41 broadcasts.
\<close>

theorem deliver_never_confirmed_witness:
  "\<exists>w'. transactionSenderAndConfirmationWaiter 120001 (steady_channel (QueryFail 3)) default_args net0
           = Some (Inr \<lparr>txid = 7, transactionResponse = None\<rparr>, w')
        \<and> 120000 \<le> clock w' \<and> clock w' < 122500 \<and> sends w' \<le> 41"
proof -
  have s: "\<forall>k. \<exists>lat tid. sendRawTransaction (steady_channel (QueryFail 3)) k = SendOk lat tid \<and> int lat \<le> 0"
    by (simp add: steady_channel_def)
  have q: "\<forall>k lat r. getTransaction (steady_channel (QueryFail 3)) k \<noteq> QueryConfirmed lat r"
    by (simp add: steady_channel_def)
  have p: "0 < pollInterval default_args"
    by (simp add: default_args_def)
  have f: "nat (timeout default_args) < 120001"
    by (simp add: default_args_def TX_DURATION_def)
  from deliver_never_confirmed [OF s q p f, of net0]
  show ?thesis
    by (auto simp: steady_channel_def default_args_def TX_DURATION_def net0_def)
qed

text \<open>
  With a channel that accepts every broadcast, nothing in the loop throws: the protocol
  never ends with an error, whatever the status queries do.
\<close>

lemma rebroadcast_no_fault:
  assumes "\<forall>k. \<exists>l t. sendRawTransaction conn k = SendOk l t"
  shows "\<exists>ls1 rt1 w1. rebroadcast conn a ls rt w = (Inr (ls1, rt1), w1)"
proof -
  from assms obtain l t where "sendRawTransaction conn (sends w) = SendOk l t" by blast
  then show ?thesis by (simp add: rebroadcast_def Let_def)
qed

lemma waiter_loop_no_fault:
  assumes "\<forall>k. \<exists>l t. sendRawTransaction conn k = SendOk l t"
  shows "waiter_loop fuel conn a tid start ls rt w \<noteq> Some (Inl e, w')"
proof (induction fuel arbitrary: ls rt w)
  case 0
  show ?case by simp
next
  case (Suc fuel)
  show ?case
  proof (cases "clock w - start < timeout a")
    case False
    then show ?thesis by simp
  next
    case True
    from rebroadcast_no_fault [OF assms, of a ls rt w]
    obtain ls1 rt1 w1 where rb: "rebroadcast conn a ls rt w = (Inr (ls1, rt1), w1)" by blast
    obtain el resp where race: "race_any (getTransaction conn (queries w1)) = (el, resp)"
      by (cases "race_any (getTransaction conn (queries w1))")
    show ?thesis
    proof (cases resp)
      case (Some r)
      with True rb race show ?thesis by (simp add: Let_def)
    next
      case None
      with True rb race Suc.IH show ?thesis by (simp add: Let_def)
    qed
  qed
qed

text \<open>
  The loop returns without a response only from the test of its condition: not before
  the deadline.
\<close>

lemma waiter_loop_deadline:
  "waiter_loop fuel conn a tid start ls rt w = Some (Inr res, w') \<Longrightarrow>
     transactionResponse res = None \<Longrightarrow> timeout a \<le> clock w' - start"
proof (induction fuel arbitrary: ls rt w)
  case 0
  then show ?case by simp
next
  case (Suc fuel)
  show ?case
  proof (cases "clock w - start < timeout a")
    case False
    with Suc.prems show ?thesis by auto
  next
    case True
    obtain out w1 where rb: "rebroadcast conn a ls rt w = (out, w1)"
      by (cases "rebroadcast conn a ls rt w")
    show ?thesis
    proof (cases out)
      case (Inl e)
      with Suc.prems True rb show ?thesis by simp
    next
      case (Inr p)
      obtain ls1 rt1 where p: "p = (ls1, rt1)" by (cases p)
      obtain el resp where race: "race_any (getTransaction conn (queries w1)) = (el, resp)"
        by (cases "race_any (getTransaction conn (queries w1))")
      show ?thesis
      proof (cases resp)
        case (Some r)
        with Suc.prems True rb Inr p race show ?thesis by (auto simp: Let_def)
      next
        case None
        with Suc.prems(1) True rb Inr p race
        have "waiter_loop fuel conn a tid start ls1 rt1
                (sleep (pollInterval a) (w1\<lparr>clock := clock w1 + el, queries := Suc (queries w1)\<rparr>))
              = Some (Inr res, w')"
          by (simp add: Let_def)
        from Suc.IH [OF this Suc.prems(2)] show ?thesis .
      qed
    qed
  qed
qed

text \<open>
  C5 (as stated in the specification, refuted): a failing network call inside the loop
  would never end the protocol early. With the default parameters, a channel that rejects
  every rebroadcast ends the protocol with that error at the first rebroadcast, 6000 ms
  after the first broadcast and long before the deadline.
\<close>

theorem call_failures_counterexample:
  "transactionSenderAndConfirmationWaiter 200 flaky_channel default_args net0
     = Some (Inl NetworkError, \<lparr>clock = 6000, sends = 2, queries = 6\<rparr>)
   \<and> 6000 < timeout default_args"
proof -
  have a: "transactionSenderAndConfirmationWaiter 200 flaky_channel default_args net0
     = Some (Inl NetworkError, \<lparr>clock = 6000, sends = 2, queries = 6\<rparr>)"
    by code_simp
  have b: "6000 < timeout default_args"
    by (simp add: default_args_def TX_DURATION_def)
  from a b show ?thesis by blast
qed

text \<open>
  C5 (amended): a failing status query is treated as "no result yet". The rejection is
  ignored by \<open>Promise.any\<close> and the 1500 ms wait decides the race, without a response;
  the iteration then sleeps \<open>pollInterval\<close> and the loop goes on with the next iteration,
  the state being the one after the 1500 ms and the sleep. Replacing every rejected query
  of a channel by one that never settles changes nothing in the run of the protocol. As
  long as every broadcast is accepted, the protocol never ends with an error, whatever
  the queries do, and it returns without a response only once the deadline has passed;
  when every query is rejected (and \<open>pollInterval\<close> is positive) it does return, within
  \<open>timeout + 1\<close> iterations, the id of the first broadcast and no response. A failing
  rebroadcast is not tolerated: the iteration in which it is due returns its error at once.
\<close>

theorem call_failures:
  "race_any (QueryFail lat) = (1500, None)
   \<and> (clock w - start < timeout a \<and> rebroadcast conn a ls rt w = (Inr (ls1, rt1), w1)
        \<and> getTransaction conn (queries w1) = QueryFail lat \<longrightarrow>
      waiter_loop (Suc fuel) conn a tid start ls rt w
        = waiter_loop fuel conn a tid start ls1 rt1
            (sleep (pollInterval a) (w1\<lparr>clock := clock w1 + 1500, queries := Suc (queries w1)\<rparr>)))
   \<and> transactionSenderAndConfirmationWaiter fuel (absorb_failures conn) a w
       = transactionSenderAndConfirmationWaiter fuel conn a w
   \<and> ((\<forall>k. \<exists>l t. sendRawTransaction conn k = SendOk l t) \<longrightarrow>
        transactionSenderAndConfirmationWaiter fuel conn a w \<noteq> Some (Inl e, w'))
   \<and> (sendRawTransaction conn (sends w) = SendOk l0 t0
        \<and> transactionSenderAndConfirmationWaiter fuel conn a w = Some (Inr res, w')
        \<and> transactionResponse res = None \<longrightarrow>
      timeout a \<le> clock w' - (clock w + int l0))
   \<and> ((\<forall>k. \<exists>l t. sendRawTransaction conn k = SendOk l t \<and> int l \<le> L)
        \<and> (\<forall>k. \<exists>l. getTransaction conn k = QueryFail l)
        \<and> 0 < pollInterval a \<and> nat (timeout a) < fuel \<longrightarrow>
      (\<exists>l t w''. sendRawTransaction conn (sends w) = SendOk l t
         \<and> transactionSenderAndConfirmationWaiter fuel conn a w
             = Some (Inr \<lparr>txid = t, transactionResponse = None\<rparr>, w'')
         \<and> timeout a \<le> clock w'' - (clock w + int l)))
   \<and> (clock w - start < timeout a \<and> rt < sendRetries a \<and> clock w - ls > sendInterval a
        \<and> sendRawTransaction conn (sends w) = SendFail lat \<longrightarrow>
      waiter_loop (Suc fuel) conn a tid start ls rt w
        = Some (Inl NetworkError, w\<lparr>clock := clock w + int lat, sends := Suc (sends w)\<rparr>))"
proof -
  have race: "race_any (QueryFail lat) = (1500, None)"
    by simp
  have step: "clock w - start < timeout a \<and> rebroadcast conn a ls rt w = (Inr (ls1, rt1), w1)
        \<and> getTransaction conn (queries w1) = QueryFail lat \<longrightarrow>
      waiter_loop (Suc fuel) conn a tid start ls rt w
        = waiter_loop fuel conn a tid start ls1 rt1
            (sleep (pollInterval a) (w1\<lparr>clock := clock w1 + 1500, queries := Suc (queries w1)\<rparr>))"
    by (simp add: Let_def)
  have absorb: "transactionSenderAndConfirmationWaiter fuel (absorb_failures conn) a w
     = transactionSenderAndConfirmationWaiter fuel conn a w"
    by (simp add: transactionSenderAndConfirmationWaiter_def waiter_loop_absorb Let_def
        split: send_reply.split)
  have no_fault: "(\<forall>k. \<exists>l t. sendRawTransaction conn k = SendOk l t) \<longrightarrow>
        transactionSenderAndConfirmationWaiter fuel conn a w \<noteq> Some (Inl e, w')"
  proof
    assume s: "\<forall>k. \<exists>l t. sendRawTransaction conn k = SendOk l t"
    then obtain l t where s0: "sendRawTransaction conn (sends w) = SendOk l t" by blast
    show "transactionSenderAndConfirmationWaiter fuel conn a w \<noteq> Some (Inl e, w')"
      using waiter_loop_no_fault [OF s]
      by (simp add: transactionSenderAndConfirmationWaiter_def s0 Let_def)
  qed
  have deadline: "sendRawTransaction conn (sends w) = SendOk l0 t0
        \<and> transactionSenderAndConfirmationWaiter fuel conn a w = Some (Inr res, w')
        \<and> transactionResponse res = None \<longrightarrow>
      timeout a \<le> clock w' - (clock w + int l0)"
  proof
    assume h: "sendRawTransaction conn (sends w) = SendOk l0 t0
        \<and> transactionSenderAndConfirmationWaiter fuel conn a w = Some (Inr res, w')
        \<and> transactionResponse res = None"
    then have s0: "sendRawTransaction conn (sends w) = SendOk l0 t0"
      and r: "transactionSenderAndConfirmationWaiter fuel conn a w = Some (Inr res, w')"
      by blast+
    have "waiter_loop fuel conn a t0 (clock w + int l0) (clock w + int l0) 0
                 (w\<lparr>clock := clock w + int l0, sends := Suc (sends w)\<rparr>) = Some (Inr res, w')"
      using r unfolding transactionSenderAndConfirmationWaiter_def s0 by (simp add: Let_def)
    from waiter_loop_deadline [OF this] h show "timeout a \<le> clock w' - (clock w + int l0)"
      by simp
  qed
  have returns: "(\<forall>k. \<exists>l t. sendRawTransaction conn k = SendOk l t \<and> int l \<le> L)
        \<and> (\<forall>k. \<exists>l. getTransaction conn k = QueryFail l)
        \<and> 0 < pollInterval a \<and> nat (timeout a) < fuel \<longrightarrow>
      (\<exists>l t w''. sendRawTransaction conn (sends w) = SendOk l t
         \<and> transactionSenderAndConfirmationWaiter fuel conn a w
             = Some (Inr \<lparr>txid = t, transactionResponse = None\<rparr>, w'')
         \<and> timeout a \<le> clock w'' - (clock w + int l))"
  proof
    assume h: "(\<forall>k. \<exists>l t. sendRawTransaction conn k = SendOk l t \<and> int l \<le> L)
        \<and> (\<forall>k. \<exists>l. getTransaction conn k = QueryFail l)
        \<and> 0 < pollInterval a \<and> nat (timeout a) < fuel"
    then have s: "\<forall>k. \<exists>l t. sendRawTransaction conn k = SendOk l t \<and> int l \<le> L"
      and q: "\<forall>k. \<exists>l. getTransaction conn k = QueryFail l"
      and p: "0 < pollInterval a" and f: "nat (timeout a) < fuel"
      by blast+
    have never: "\<forall>k l r. getTransaction conn k \<noteq> QueryConfirmed l r"
    proof (intro allI)
      fix k l r
      from q obtain l' where "getTransaction conn k = QueryFail l'" by blast
      then show "getTransaction conn k \<noteq> QueryConfirmed l r" by simp
    qed
    from s obtain l t where s0: "sendRawTransaction conn (sends w) = SendOk l t" by blast
    define w1 where "w1 = w\<lparr>clock := clock w + int l, sends := Suc (sends w)\<rparr>"
    have c1: "clock w1 = clock w + int l"
      by (simp add: w1_def)
    have run: "transactionSenderAndConfirmationWaiter fuel conn a w
                 = waiter_loop fuel conn a t (clock w1) (clock w1) 0 w1"
      by (simp add: transactionSenderAndConfirmationWaiter_def s0 w1_def Let_def)
    have "nat (timeout a - (clock w1 - clock w1)) < fuel"
      using f by simp
    from waiter_loop_never_confirmed [OF s never p this, of t "clock w1" 0]
    obtain w'' where r: "waiter_loop fuel conn a t (clock w1) (clock w1) 0 w1
               = Some (Inr \<lparr>txid = t, transactionResponse = None\<rparr>, w'')"
        and d: "timeout a \<le> clock w'' - clock w1"
      by blast
    from s0 r d show "\<exists>l t w''. sendRawTransaction conn (sends w) = SendOk l t
         \<and> transactionSenderAndConfirmationWaiter fuel conn a w
             = Some (Inr \<lparr>txid = t, transactionResponse = None\<rparr>, w'')
         \<and> timeout a \<le> clock w'' - (clock w + int l)"
      unfolding run c1 by blast
  qed
  have fails: "clock w - start < timeout a \<and> rt < sendRetries a \<and> clock w - ls > sendInterval a
        \<and> sendRawTransaction conn (sends w) = SendFail lat \<longrightarrow>
      waiter_loop (Suc fuel) conn a tid start ls rt w
        = Some (Inl NetworkError, w\<lparr>clock := clock w + int lat, sends := Suc (sends w)\<rparr>)"
    by (simp add: rebroadcast_def Let_def)
  from race step absorb no_fault deadline returns fails show ?thesis by (intro conjI)
qed

text \<open>
  A channel whose queries are all rejected after 3 ms, with the default parameters: the
  first iteration goes on to the second at 2500 ms, the run equals that of the channel
  whose queries never settle, it ends without an error and without a response 120000 ms
  after the first broadcast, after 48 iterations of 2500 ms and 16 broadcasts. The channel that rejects
  rebroadcasts ends the iteration at 6000 ms with the error.
\<close>

theorem call_failures_witness:
  "clock net0 - 0 < timeout default_args
   \<and> rebroadcast (steady_channel (QueryFail 3)) default_args 0 0 net0 = (Inr (0, 0), net0)
   \<and> getTransaction (steady_channel (QueryFail 3)) (queries net0) = QueryFail 3
   \<and> waiter_loop (Suc 60) (steady_channel (QueryFail 3)) default_args 7 0 0 0 net0
       = waiter_loop 60 (steady_channel (QueryFail 3)) default_args 7 0 0 0
           \<lparr>clock = 2500, sends = 0, queries = 1\<rparr>
   \<and> transactionSenderAndConfirmationWaiter 120001 (absorb_failures (steady_channel (QueryFail 3)))
        default_args net0
       = transactionSenderAndConfirmationWaiter 120001 (steady_channel (QueryFail 3)) default_args net0
   \<and> getTransaction (absorb_failures (steady_channel (QueryFail 3))) 0 = QueryHang
   \<and> transactionSenderAndConfirmationWaiter 120001 (steady_channel (QueryFail 3)) default_args net0
       = Some (Inr \<lparr>txid = 7, transactionResponse = None\<rparr>, \<lparr>clock = 120000, sends = 16, queries = 48\<rparr>)
   \<and> transactionSenderAndConfirmationWaiter 120001 (steady_channel (QueryFail 3)) default_args net0
       \<noteq> Some (Inl NetworkError, \<lparr>clock = 2500, sends = 1, queries = 1\<rparr>)
   \<and> timeout default_args \<le> clock \<lparr>clock = 120000, sends = 16, queries = 48\<rparr> - (clock net0 + int 0)
   \<and> clock \<lparr>clock = 6000, sends = 1, queries = 6\<rparr> - 0 < timeout default_args
   \<and> 0 < sendRetries default_args
   \<and> clock \<lparr>clock = 6000, sends = 1, queries = 6\<rparr> - 0 > sendInterval default_args
   \<and> sendRawTransaction flaky_channel (sends \<lparr>clock = 6000, sends = 1, queries = 6\<rparr>) = SendFail 0
   \<and> waiter_loop (Suc 0) flaky_channel default_args 7 0 0 0 \<lparr>clock = 6000, sends = 1, queries = 6\<rparr>
       = Some (Inl NetworkError, \<lparr>clock = 6000, sends = 2, queries = 6\<rparr>)"
proof -
  let ?conn = "steady_channel (QueryFail 3)"
  let ?end = "\<lparr>clock = 120000, sends = 16, queries = 48\<rparr>"
  let ?res = "\<lparr>txid = 7, transactionResponse = None\<rparr>"
  have hs: "clock net0 - 0 < timeout default_args
      \<and> rebroadcast ?conn default_args 0 0 net0 = (Inr (0, 0), net0)
      \<and> getTransaction ?conn (queries net0) = QueryFail 3"
    by (simp add: net0_def default_args_def TX_DURATION_def rebroadcast_def steady_channel_def)
  note step = call_failures [where w = net0 and start = 0 and a = default_args and conn = ?conn
      and ls = 0 and rt = 0 and ?ls1.0 = 0 and ?rt1.0 = 0 and ?w1.0 = net0 and lat = 3
      and fuel = 60 and tid = 7, THEN conjunct2, THEN conjunct1, THEN mp, OF hs]
  have step': "waiter_loop (Suc 60) ?conn default_args 7 0 0 0 net0
       = waiter_loop 60 ?conn default_args 7 0 0 0 \<lparr>clock = 2500, sends = 0, queries = 1\<rparr>"
    using step by (simp add: net0_def sleep_def default_args_def)
  note full = call_failures [where fuel = 120001 and conn = ?conn and a = default_args and w = net0
      and L = 0 and e = NetworkError and w' = "\<lparr>clock = 2500, sends = 1, queries = 1\<rparr>"]
  note absorb = full [THEN conjunct2, THEN conjunct2, THEN conjunct1]
  have g: "getTransaction (absorb_failures ?conn) 0 = QueryHang"
    by (simp add: absorb_failures_def steady_channel_def)
  have hn: "\<forall>k. \<exists>l t. sendRawTransaction ?conn k = SendOk l t"
    by (simp add: steady_channel_def)
  note no_fault = full [THEN conjunct2, THEN conjunct2, THEN conjunct2, THEN conjunct1,
      THEN mp, OF hn]
  have run200: "transactionSenderAndConfirmationWaiter 200 ?conn default_args net0
       = Some (Inr ?res, ?end)"
    by code_simp
  have run: "transactionSenderAndConfirmationWaiter 120001 ?conn default_args net0
       = Some (Inr ?res, ?end)"
    using deliver_more_fuel [OF run200, of 119801] by simp
  have hd: "sendRawTransaction ?conn (sends net0) = SendOk 0 7
      \<and> transactionSenderAndConfirmationWaiter 120001 ?conn default_args net0 = Some (Inr ?res, ?end)
      \<and> transactionResponse ?res = None"
    using run by (simp add: steady_channel_def)
  note deadline = call_failures [where fuel = 120001 and conn = ?conn and a = default_args
      and w = net0 and ?l0.0 = 0 and ?t0.0 = 7 and res = ?res and w' = ?end,
      THEN conjunct2, THEN conjunct2, THEN conjunct2, THEN conjunct2, THEN conjunct1,
      THEN mp, OF hd]
  have hr: "(\<forall>k. \<exists>l t. sendRawTransaction ?conn k = SendOk l t \<and> int l \<le> 0)
      \<and> (\<forall>k. \<exists>l. getTransaction ?conn k = QueryFail l)
      \<and> 0 < pollInterval default_args \<and> nat (timeout default_args) < 120001"
    by (simp add: steady_channel_def default_args_def TX_DURATION_def)
  note returns = full [THEN conjunct2, THEN conjunct2, THEN conjunct2, THEN conjunct2,
      THEN conjunct2, THEN conjunct1, THEN mp, OF hr]
  have returns': "transactionSenderAndConfirmationWaiter 120001 ?conn default_args net0
       = Some (Inr ?res, ?end)"
    using returns run by simp
  have hf: "clock \<lparr>clock = 6000, sends = 1, queries = 6\<rparr> - 0 < timeout default_args
      \<and> 0 < sendRetries default_args
      \<and> clock \<lparr>clock = 6000, sends = 1, queries = 6\<rparr> - 0 > sendInterval default_args
      \<and> sendRawTransaction flaky_channel (sends \<lparr>clock = 6000, sends = 1, queries = 6\<rparr>) = SendFail 0"
    by (simp add: default_args_def TX_DURATION_def flaky_channel_def)
  note fails = call_failures [where w = "\<lparr>clock = 6000, sends = 1, queries = 6\<rparr>" and start = 0
      and a = default_args and rt = 0 and ls = 0 and conn = flaky_channel and lat = 0
      and fuel = 0 and tid = 7, THEN conjunct2, THEN conjunct2, THEN conjunct2, THEN conjunct2,
      THEN conjunct2, THEN conjunct2, THEN mp, OF hf]
  have fails': "waiter_loop (Suc 0) flaky_channel default_args 7 0 0 0
         \<lparr>clock = 6000, sends = 1, queries = 6\<rparr>
       = Some (Inl NetworkError, \<lparr>clock = 6000, sends = 2, queries = 6\<rparr>)"
    using fails by simp
  note hs1 = hs [THEN conjunct1] and hs2 = hs [THEN conjunct2, THEN conjunct1]
    and hs3 = hs [THEN conjunct2, THEN conjunct2]
  note hf1 = hf [THEN conjunct1] and hf2 = hf [THEN conjunct2, THEN conjunct1]
    and hf3 = hf [THEN conjunct2, THEN conjunct2, THEN conjunct1]
    and hf4 = hf [THEN conjunct2, THEN conjunct2, THEN conjunct2]
  from hs1 hs2 hs3 step' absorb g returns' no_fault deadline hf1 hf2 hf3 hf4 fails'
  show ?thesis
    by (intro conjI)
qed

text \<open>
  C8 (as stated in the specification, refuted): the wait that the status query is raced
  against would be strictly shorter than \<open>pollInterval\<close>. With the default parameters
  (\<open>pollInterval = 1000\<close>) a confirmation that arrives 1200 ms into the race is still
  observed, and a query that never settles holds the iteration for 1500 ms before the
  1000 ms sleep: the wait is 1500 ms.
\<close>

theorem race_wait_counterexample:
  "transactionSenderAndConfirmationWaiter 1 (steady_channel (QueryConfirmed 1200 99)) default_args net0
     = Some (Inr \<lparr>txid = 7, transactionResponse = Some 99\<rparr>, \<lparr>clock = 1200, sends = 1, queries = 1\<rparr>)
   \<and> transactionSenderAndConfirmationWaiter 2 (steady_channel QueryHang)
        (default_args\<lparr>timeout := 1\<rparr>) net0
     = Some (Inr \<lparr>txid = 7, transactionResponse = None\<rparr>, \<lparr>clock = 2500, sends = 1, queries = 1\<rparr>)
   \<and> pollInterval default_args = 1000
   \<and> race_any QueryHang = (1500, None)
   \<and> \<not> fst (race_any QueryHang) < pollInterval default_args"
proof -
  have a: "transactionSenderAndConfirmationWaiter 1 (steady_channel (QueryConfirmed 1200 99)) default_args net0
     = Some (Inr \<lparr>txid = 7, transactionResponse = Some 99\<rparr>, \<lparr>clock = 1200, sends = 1, queries = 1\<rparr>)"
    by code_simp
  have b: "transactionSenderAndConfirmationWaiter 2 (steady_channel QueryHang)
        (default_args\<lparr>timeout := 1\<rparr>) net0
     = Some (Inr \<lparr>txid = 7, transactionResponse = None\<rparr>, \<lparr>clock = 2500, sends = 1, queries = 1\<rparr>)"
    by code_simp
  have c: "pollInterval default_args = 1000 \<and> race_any QueryHang = (1500, None)
      \<and> \<not> fst (race_any QueryHang) < pollInterval default_args"
    by (simp add: default_args_def)
  from a b c show ?thesis by blast
qed

text \<open>
  C8 (amended): in every iteration the status query is raced against a fixed wait of
  1500 ms, whatever \<open>pollInterval\<close> is. If the confirmation arrives within those 1500 ms,
  the protocol returns it at once, at the time of its arrival and without the
  \<open>pollInterval\<close> sleep; a confirmation that arrives later is not seen by that iteration.
\<close>

theorem race_confirmation:
  "(clock w - start < timeout a \<and> rebroadcast conn a ls rt w = (Inr (ls1, rt1), w1)
      \<and> getTransaction conn (queries w1) = QueryConfirmed lat r \<and> int lat < 1500 \<longrightarrow>
      waiter_loop (Suc fuel) conn a tid start ls rt w
        = Some (Inr \<lparr>txid = tid, transactionResponse = Some r\<rparr>,
                w1\<lparr>clock := clock w1 + int lat, queries := Suc (queries w1)\<rparr>))
   \<and> fst (race_any q) \<le> 1500
   \<and> race_any QueryHang = (1500, None)
   \<and> (1500 \<le> int lat \<longrightarrow> race_any (QueryConfirmed lat r) = (1500, None))"
proof -
  have a: "clock w - start < timeout a \<and> rebroadcast conn a ls rt w = (Inr (ls1, rt1), w1)
      \<and> getTransaction conn (queries w1) = QueryConfirmed lat r \<and> int lat < 1500 \<longrightarrow>
      waiter_loop (Suc fuel) conn a tid start ls rt w
        = Some (Inr \<lparr>txid = tid, transactionResponse = Some r\<rparr>,
                w1\<lparr>clock := clock w1 + int lat, queries := Suc (queries w1)\<rparr>)"
    by (simp add: Let_def)
  have b: "fst (race_any q) \<le> 1500"
    using race_any_bounds [of q] by simp
  have c: "race_any QueryHang = (1500, None)" by simp
  have d: "1500 \<le> int lat \<longrightarrow> race_any (QueryConfirmed lat r) = (1500, None)" by simp
  from a b c d show ?thesis by blast
qed

text \<open>
  A confirmation after 1200 ms is returned at 1200 ms; one after 1500 ms loses the race.
\<close>

theorem race_confirmation_witness:
  "clock net0 - 0 < timeout default_args
   \<and> rebroadcast (steady_channel (QueryConfirmed 1200 99)) default_args 0 0 net0 = (Inr (0, 0), net0)
   \<and> getTransaction (steady_channel (QueryConfirmed 1200 99)) (queries net0) = QueryConfirmed 1200 99
   \<and> waiter_loop (Suc 0) (steady_channel (QueryConfirmed 1200 99)) default_args 7 0 0 0 net0
       = Some (Inr \<lparr>txid = 7, transactionResponse = Some 99\<rparr>, \<lparr>clock = 1200, sends = 0, queries = 1\<rparr>)
   \<and> race_any (QueryConfirmed 1500 99) = (1500, None)"
proof -
  have h: "clock net0 - 0 < timeout default_args
      \<and> rebroadcast (steady_channel (QueryConfirmed 1200 99)) default_args 0 0 net0 = (Inr (0, 0), net0)
      \<and> getTransaction (steady_channel (QueryConfirmed 1200 99)) (queries net0) = QueryConfirmed 1200 99
      \<and> int 1200 < 1500"
    by (simp add: net0_def default_args_def TX_DURATION_def rebroadcast_def steady_channel_def)
  note a = race_confirmation [where w = net0 and start = 0 and a = default_args
      and conn = "steady_channel (QueryConfirmed 1200 99)" and ls = 0 and rt = 0 and ?ls1.0 = 0
      and ?rt1.0 = 0 and ?w1.0 = net0 and lat = 1200 and r = 99 and fuel = 0 and tid = 7,
      THEN conjunct1, rule_format, OF h]
  note d = race_confirmation [where lat = 1500 and r = 99,
      THEN conjunct2, THEN conjunct2, THEN conjunct2]
  have d': "race_any (QueryConfirmed 1500 99) = (1500, None)"
    using d by simp
  from h a d' show ?thesis by (simp add: net0_def)
qed

end
